theory Spec2Isabelle
  imports Complex_Main "HOL-Library.Word" "HOL-Library.Multiset" "HOL-Library.AList"
begin

section \<open>Data model of the search package (internal/search/search.go)\<close>

text \<open>
  Go structs are records. Field names are the source's, except where two structs share
  a field name: \<open>ChunkData\<close>'s fields carry the prefix \<open>chunk_\<close> and
  \<open>SearchOptions\<close>' fields the prefix \<open>opt_\<close>. Go's \<open>int\<close> is HOL's
  \<open>int\<close>; no claim below depends on 64-bit wrap-around. The type variable \<open>'f\<close>
  stands for \<open>float32\<close> and \<open>'d\<close> for \<open>float64\<close>.
\<close>

record Metadata =
  Reference :: string
  Book :: string
  Chapter :: int
  VerseNum :: int
  Events :: "string list"
  Entities :: "string list"

record TextData =
  Text :: string
  Meta :: Metadata

record ChunkData =
  chunk_ID :: string
  chunk_Text :: string
  chunk_Meta :: Metadata

record 'f SearchResult =
  ID :: string
  Similarity :: 'f
  Score :: 'f
  Chunk :: ChunkData

record SearchOptions =
  opt_Book :: string
  opt_Chapter :: string
  opt_Verse :: string
  opt_Granularity :: string
  opt_K :: int

record 'f VectorIndex =
  Vectors :: "'f list list"
  IDs :: "string list"

text \<open>The zero values Go gives to a struct literal's omitted fields.\<close>

definition zero_Metadata :: Metadata where
  "zero_Metadata = \<lparr>Reference = [], Book = [], Chapter = 0, VerseNum = 0,
     Events = [], Entities = []\<rparr>"

definition zero_ChunkData :: ChunkData where
  "zero_ChunkData = \<lparr>chunk_ID = [], chunk_Text = [], chunk_Meta = zero_Metadata\<rparr>"

text \<open>Run-time panics of the Go code are values.\<close>

datatype panic =
    IndexOutOfRange int int
  | SliceBoundsOutOfRange int
  | NilPointerDereference
  | TypeAssertionFailed

section \<open>What the code takes from the Go run time and standard library\<close>

text \<open>
  The arithmetic of \<open>float32\<close> and \<open>float64\<close>, \<open>sort.Slice\<close>,
  \<open>strings.EqualFold\<close> and the decoding of a string into runes are not code of this
  repository. They are the fields of one record that every function below takes as its
  first argument, so that a theorem stated for every such record holds for the real
  ones. \<open>f32_gt\<close>, \<open>f32_lt\<close> and \<open>f32_eq\<close> are Go's \<open>>\<close>, \<open><\<close> and
  \<open>==\<close> on \<open>float32\<close>; \<open>f32_of_int\<close> converts an integer (a constant, an
  \<open>int8\<close>, a \<open>uint32\<close>) to \<open>float32\<close>; \<open>int_of_f32\<close> and
  \<open>int_of_f64\<close> are the conversion \<open>int(x)\<close>; \<open>runes s\<close> lists the code
  points that \<open>for _, char := range s\<close> yields; \<open>sscanf_d s\<close> is the integer that
  \<open>fmt.Sscanf(s, "%d", &intVal)\<close> leaves in \<open>intVal\<close>.
  \<open>findBestTextMatches\<close> stands for the method of that name of
  \<open>SimpleEmbeddingService\<close>: it ranges over a Go map, whose iteration order is not
  fixed, and scores with \<open>math.Log\<close>; the model takes the list of ids it returns
  as given.
\<close>

record ('f, 'd) golib =
  f32_add :: "'f \<Rightarrow> 'f \<Rightarrow> 'f"
  f32_sub :: "'f \<Rightarrow> 'f \<Rightarrow> 'f"
  f32_mul :: "'f \<Rightarrow> 'f \<Rightarrow> 'f"
  f32_div :: "'f \<Rightarrow> 'f \<Rightarrow> 'f"
  f32_gt :: "'f \<Rightarrow> 'f \<Rightarrow> bool"
  f32_lt :: "'f \<Rightarrow> 'f \<Rightarrow> bool"
  f32_eq :: "'f \<Rightarrow> 'f \<Rightarrow> bool"
  f32_of_int :: "int \<Rightarrow> 'f"
  int_of_f32 :: "'f \<Rightarrow> int"
  f64_of_f32 :: "'f \<Rightarrow> 'd"
  f32_of_f64 :: "'d \<Rightarrow> 'f"
  f64_sqrt :: "'d \<Rightarrow> 'd"
  f64_mul :: "'d \<Rightarrow> 'd \<Rightarrow> 'd"
  sort_Slice :: "('f SearchResult \<Rightarrow> 'f SearchResult \<Rightarrow> bool)
                  \<Rightarrow> 'f SearchResult list \<Rightarrow> 'f SearchResult list"
  EqualFold :: "string \<Rightarrow> string \<Rightarrow> bool"
  runes :: "string \<Rightarrow> nat list"
  int_of_f64 :: "'d \<Rightarrow> int"
  sscanf_d :: "string \<Rightarrow> int"
  findBestTextMatches :: "(string \<rightharpoonup> string) \<Rightarrow> string \<Rightarrow> nat \<Rightarrow> string list"

section \<open>VectorIndex\<close>

definition NewVectorIndex :: "'f VectorIndex" where
  "NewVectorIndex = \<lparr>Vectors = [], IDs = []\<rparr>"

text \<open>\<open>Add\<close> has no result and no check: it appends the id and the vector.\<close>

definition Add :: "'f VectorIndex \<Rightarrow> string \<Rightarrow> 'f list \<Rightarrow> 'f VectorIndex" where
  "Add vi eid vector = vi\<lparr>IDs := IDs vi @ [eid], Vectors := Vectors vi @ [vector]\<rparr>"

definition Size :: "'f VectorIndex \<Rightarrow> int" where
  "Size vi = int (length (Vectors vi))"

definition Clear :: "'f VectorIndex \<Rightarrow> 'f VectorIndex" where
  "Clear vi = vi\<lparr>Vectors := [], IDs := []\<rparr>"

text \<open>
  \<open>cosineSimilarity\<close>: 0 when the lengths differ; one pass over the indices of \<open>a\<close>
  accumulating the dot product and the two squared norms; 0 when the magnitude compares
  equal to 0.
\<close>

definition cosine_step ::
  "('f, 'd) golib \<Rightarrow> 'f \<times> 'f \<times> 'f \<Rightarrow> 'f \<times> 'f \<Rightarrow> 'f \<times> 'f \<times> 'f" where
  "cosine_step L acc p =
     (case acc of (dotProduct, normA, normB) \<Rightarrow>
      case p of (x, y) \<Rightarrow>
        (f32_add L dotProduct (f32_mul L x y),
         f32_add L normA (f32_mul L x x),
         f32_add L normB (f32_mul L y y)))"

definition cosineSimilarity :: "('f, 'd) golib \<Rightarrow> 'f list \<Rightarrow> 'f list \<Rightarrow> 'f" where
  "cosineSimilarity L a b =
     (if length a \<noteq> length b then f32_of_int L 0
      else
        case foldl (cosine_step L) (f32_of_int L 0, f32_of_int L 0, f32_of_int L 0) (zip a b) of
          (dotProduct, normA, normB) \<Rightarrow>
            let magnitude =
                  f32_of_f64 L (f64_mul L (f64_sqrt L (f64_of_f32 L normA))
                                          (f64_sqrt L (f64_of_f32 L normB)))
            in if f32_eq L magnitude (f32_of_int L 0) then f32_of_int L 0
               else f32_div L dotProduct magnitude)"

definition mk_result :: "string \<Rightarrow> 'f \<Rightarrow> 'f SearchResult" where
  "mk_result eid similarity =
     \<lparr>ID = eid, Similarity = similarity, Score = similarity, Chunk = zero_ChunkData\<rparr>"

text \<open>The comparison handed to \<open>sort.Slice\<close>: \<open>results[i].Similarity > results[j].Similarity\<close>.\<close>

definition by_similarity :: "('f, 'd) golib \<Rightarrow> 'f SearchResult \<Rightarrow> 'f SearchResult \<Rightarrow> bool" where
  "by_similarity L x y = f32_gt L (Similarity x) (Similarity y)"

text \<open>
  \<open>results[:k]\<close> after \<open>if k > len(results) { k = len(results) }\<close>: Go panics on a
  negative upper bound.
\<close>

definition top_k :: "int \<Rightarrow> 'a list \<Rightarrow> panic + 'a list" where
  "top_k k results =
     (let k' = (if k > int (length results) then int (length results) else k)
      in if k' < 0 then Inl (SliceBoundsOutOfRange k') else Inr (take (nat k') results))"

text \<open>
  The loop \<open>for i, vec := range vi.Vectors\<close> of \<open>Search\<close>, reading \<open>vi.IDs[i]\<close>
  (a panic when \<open>IDs\<close> is shorter than \<open>Vectors\<close>).
\<close>

fun Search_loop ::
  "('f, 'd) golib \<Rightarrow> 'f list \<Rightarrow> string list \<Rightarrow> nat \<Rightarrow> 'f list list
    \<Rightarrow> 'f SearchResult list \<Rightarrow> panic + 'f SearchResult list" where
  "Search_loop L query ids i [] results = Inr results"
| "Search_loop L query ids i (vec # vecs) results =
     (if i \<ge> length ids then Inl (IndexOutOfRange (int i) (int (length ids)))
      else Search_loop L query ids (Suc i) vecs
             (results @ [mk_result (ids ! i) (cosineSimilarity L query vec)]))"

definition VectorIndex_Search ::
  "('f, 'd) golib \<Rightarrow> 'f VectorIndex \<Rightarrow> 'f list \<Rightarrow> int \<Rightarrow> panic + 'f SearchResult list" where
  "VectorIndex_Search L vi query k =
     (if length (Vectors vi) = 0 then Inr []
      else case Search_loop L query (IDs vi) 0 (Vectors vi) [] of
             Inl p \<Rightarrow> Inl p
           | Inr results \<Rightarrow> top_k k (sort_Slice L (by_similarity L) results))"

text \<open>The loop of \<open>SearchWithFilter\<close>: the same, skipping the ids the filter rejects.\<close>

fun SearchWithFilter_loop ::
  "('f, 'd) golib \<Rightarrow> (string \<Rightarrow> bool) \<Rightarrow> 'f list \<Rightarrow> string list \<Rightarrow> nat \<Rightarrow> 'f list list
    \<Rightarrow> 'f SearchResult list \<Rightarrow> panic + 'f SearchResult list" where
  "SearchWithFilter_loop L accept query ids i [] results = Inr results"
| "SearchWithFilter_loop L accept query ids i (vec # vecs) results =
     (if i \<ge> length ids then Inl (IndexOutOfRange (int i) (int (length ids)))
      else if \<not> accept (ids ! i) then SearchWithFilter_loop L accept query ids (Suc i) vecs results
      else SearchWithFilter_loop L accept query ids (Suc i) vecs
             (results @ [mk_result (ids ! i) (cosineSimilarity L query vec)]))"

definition SearchWithFilter ::
  "('f, 'd) golib \<Rightarrow> 'f VectorIndex \<Rightarrow> 'f list \<Rightarrow> int \<Rightarrow> (string \<Rightarrow> bool)
    \<Rightarrow> panic + 'f SearchResult list" where
  "SearchWithFilter L vi query k accept =
     (if length (Vectors vi) = 0 then Inr []
      else case SearchWithFilter_loop L accept query (IDs vi) 0 (Vectors vi) [] of
             Inl p \<Rightarrow> Inl p
           | Inr results \<Rightarrow> top_k k (sort_Slice L (by_similarity L) results))"

text \<open>
  \<open>GetMemoryUsage\<close> reads \<open>vi.Vectors[0]\<close> before anything else: an index with no
  vector panics there.
\<close>

definition GetMemoryUsage :: "'f VectorIndex \<Rightarrow> panic + int" where
  "GetMemoryUsage vi =
     (case Vectors vi of
        [] \<Rightarrow> Inl (IndexOutOfRange 0 0)
      | v0 # _ \<Rightarrow>
          Inr (int (length (Vectors vi)) * int (length v0) * 4
               + foldl (\<lambda>idMemory eid. idMemory + int (length eid)) 0 (IDs vi)))"

section \<open>Scalar quantization (QuantizedIndex)\<close>

text \<open>
  \<open>quantizeVector\<close> reads \<open>vec[0]\<close> first (a panic on an empty vector), scans for
  the minimum and the maximum, and maps each component to an \<open>int8\<close> code.
  \<open>int8\<close> is \<open>8 word\<close>, read with \<open>sint\<close>.
\<close>

definition minmax_step :: "('f, 'd) golib \<Rightarrow> 'f \<times> 'f \<Rightarrow> 'f \<Rightarrow> 'f \<times> 'f" where
  "minmax_step L acc v =
     (case acc of (minVal, maxVal) \<Rightarrow>
        (if f32_lt L v minVal then v else minVal, if f32_gt L v maxVal then v else maxVal))"

definition quantize_code :: "('f, 'd) golib \<Rightarrow> 'f \<Rightarrow> 'f \<Rightarrow> 'f \<Rightarrow> 8 word" where
  "quantize_code L minVal scale v =
     (let normalized = f32_div L (f32_sub L v minVal) scale;
          val = int_of_f32 L normalized - 128;
          val' = (if val < - 128 then - 128 else if val > 127 then 127 else val)
      in word_of_int val')"

definition quantizeVector :: "('f, 'd) golib \<Rightarrow> 'f list \<Rightarrow> panic + (8 word list \<times> 'f)" where
  "quantizeVector L vec =
     (case vec of
        [] \<Rightarrow> Inl (IndexOutOfRange 0 0)
      | v0 # _ \<Rightarrow>
          (case foldl (minmax_step L) (v0, v0) vec of
             (minVal, maxVal) \<Rightarrow>
               let scale0 = f32_div L (f32_sub L maxVal minVal) (f32_of_int L 255);
                   scale = (if f32_eq L scale0 (f32_of_int L 0) then f32_of_int L 1 else scale0)
               in Inr (map (quantize_code L minVal scale) vec, scale)))"

text \<open>\<open>dequantizeVector\<close>: \<open>vec[i] = (float32(q) + 128) * scale\<close>.\<close>

definition dequantizeVector :: "('f, 'd) golib \<Rightarrow> 8 word list \<Rightarrow> 'f \<Rightarrow> 'f list" where
  "dequantizeVector L quantized scale =
     map (\<lambda>q. f32_mul L (f32_add L (f32_of_int L (sint q)) (f32_of_int L 128)) scale) quantized"

text \<open>The round trip of the claim: quantize, then dequantize with the scale returned.\<close>

definition quantize_roundtrip :: "('f, 'd) golib \<Rightarrow> 'f list \<Rightarrow> panic + ('f list \<times> 'f)" where
  "quantize_roundtrip L vec =
     (case quantizeVector L vec of
        Inl p \<Rightarrow> Inl p
      | Inr (quantized, scale) \<Rightarrow> Inr (dequantizeVector L quantized scale, scale))"

section \<open>Embedding providers (internal/embeddings, internal/config)\<close>

definition Dimensions :: nat where
  "Dimensions = 128"

definition QueryPrefix :: string where
  "QueryPrefix = ''task: search result | query: ''"

definition DocumentPrefix :: string where
  "DocumentPrefix = ''title: none | text: ''"

datatype embed_error =
    ModelNotInitialized
  | InferenceFailed
  | OutputSizeMismatch nat nat
  | ServiceNotInitialized
  | NoSimilarVerses

text \<open>
  \<open>RealONNXEmbeddingService\<close>: the tokenizer, the tensors and the session's run are the
  native inference call; the field \<open>infer\<close> stands for them and gives the output
  tensor's data or the error of the failed step.
\<close>

record 'f RealONNXEmbeddingService =
  onnx_initialized :: bool
  infer :: "string \<Rightarrow> embed_error + 'f list"

definition embed :: "'f RealONNXEmbeddingService \<Rightarrow> string \<Rightarrow> embed_error + 'f list" where
  "embed s text =
     (if \<not> onnx_initialized s then Inl ModelNotInitialized
      else case infer s text of
             Inl err \<Rightarrow> Inl err
           | Inr embeddingSlice \<Rightarrow>
               if length embeddingSlice < Dimensions
               then Inl (OutputSizeMismatch (length embeddingSlice) Dimensions)
               else Inr (take Dimensions embeddingSlice))"

definition ONNX_EmbedQuery :: "'f RealONNXEmbeddingService \<Rightarrow> string \<Rightarrow> embed_error + 'f list" where
  "ONNX_EmbedQuery s text = embed s (QueryPrefix @ text)"

definition ONNX_EmbedDocument :: "'f RealONNXEmbeddingService \<Rightarrow> string \<Rightarrow> embed_error + 'f list" where
  "ONNX_EmbedDocument s text = embed s (DocumentPrefix @ text)"

record 'f SimpleEmbeddingService =
  verseEmbeddings :: "string \<rightharpoonup> 'f list"
  verseTexts :: "string \<rightharpoonup> string"
  simple_initialized :: bool

definition NewSimpleEmbeddingService :: "'f SimpleEmbeddingService" where
  "NewSimpleEmbeddingService =
     \<lparr>verseEmbeddings = Map.empty, verseTexts = Map.empty, simple_initialized = False\<rparr>"

definition Initialize ::
  "'f SimpleEmbeddingService \<Rightarrow> (string \<rightharpoonup> 'f list) \<Rightarrow> (string \<rightharpoonup> string)
    \<Rightarrow> 'f SimpleEmbeddingService" where
  "Initialize s embs texts =
     s\<lparr>verseEmbeddings := embs, verseTexts := texts, simple_initialized := True\<rparr>"

text \<open>
  \<open>averageEmbeddings\<close>: a zero vector of \<open>Dimensions\<close> components, to which every
  listed verse that has an embedding is added componentwise (components past the
  result's length are dropped), then divided by the number of verses added.
\<close>

fun add_into :: "('f, 'd) golib \<Rightarrow> 'f list \<Rightarrow> 'f list \<Rightarrow> 'f list" where
  "add_into L [] embedding = []"
| "add_into L (r # rs) [] = r # rs"
| "add_into L (r # rs) (val # vals) = f32_add L r val # add_into L rs vals"

fun average_loop ::
  "('f, 'd) golib \<Rightarrow> (string \<rightharpoonup> 'f list) \<Rightarrow> string list \<Rightarrow> 'f list \<times> int \<Rightarrow> 'f list \<times> int" where
  "average_loop L embs [] acc = acc"
| "average_loop L embs (verseID # verseIDs) (result, cnt) =
     (case embs verseID of
        Some embedding \<Rightarrow> average_loop L embs verseIDs (add_into L result embedding, cnt + 1)
      | None \<Rightarrow> average_loop L embs verseIDs (result, cnt))"

definition averageEmbeddings ::
  "('f, 'd) golib \<Rightarrow> 'f SimpleEmbeddingService \<Rightarrow> string list \<Rightarrow> 'f list" where
  "averageEmbeddings L s verseIDs =
     (if length verseIDs = 0 then replicate Dimensions (f32_of_int L 0)
      else case average_loop L (verseEmbeddings s) verseIDs
                  (replicate Dimensions (f32_of_int L 0), 0) of
             (result, cnt) \<Rightarrow>
               if cnt > 0 then map (\<lambda>r. f32_div L r (f32_of_int L cnt)) result
               else result)"

definition Simple_EmbedQuery ::
  "('f, 'd) golib \<Rightarrow> 'f SimpleEmbeddingService \<Rightarrow> string \<Rightarrow> embed_error + 'f list" where
  "Simple_EmbedQuery L s text =
     (if \<not> simple_initialized s then Inl ServiceNotInitialized
      else let bestMatches = findBestTextMatches L (verseTexts s) text 5
           in if length bestMatches = 0 then Inl NoSimilarVerses
              else Inr (averageEmbeddings L s bestMatches))"

definition Simple_EmbedDocument ::
  "('f, 'd) golib \<Rightarrow> 'f SimpleEmbeddingService \<Rightarrow> string \<Rightarrow> embed_error + 'f list" where
  "Simple_EmbedDocument L s text = Simple_EmbedQuery L s text"

record 'f EmbeddingService =
  modelLoaded :: bool
  realOnnxService :: "'f RealONNXEmbeddingService option"
  simpleService :: "'f SimpleEmbeddingService option"
  usePrecomputed :: bool

text \<open>
  \<open>normalize\<close>: the vector itself when the sum of squares compares equal to 0,
  otherwise each component divided by the square root of the sum.
\<close>

definition normalize :: "('f, 'd) golib \<Rightarrow> 'f list \<Rightarrow> 'f list" where
  "normalize L vec =
     (let total = foldl (\<lambda>total v. f32_add L total (f32_mul L v v)) (f32_of_int L 0) vec
      in if f32_eq L total (f32_of_int L 0) then vec
         else let norm = f32_of_f64 L (f64_sqrt L (f64_of_f32 L total))
              in map (\<lambda>v. f32_div L v norm) vec)"

text \<open>
  \<open>generatePlaceholderEmbedding\<close>: a \<open>uint32\<close> hash of the runes, base 31, then for
  each dimension \<open>i\<close> the seed \<open>hash + uint32(i)*2654435761\<close> mapped by
  \<open>(float32(seed) / float32(math.MaxUint32)) * 2 - 1\<close>, then \<open>normalize\<close>.
  \<open>uint32\<close> is \<open>32 word\<close>: the arithmetic wraps.
\<close>

definition placeholder_hash :: "('f, 'd) golib \<Rightarrow> string \<Rightarrow> 32 word" where
  "placeholder_hash L text = foldl (\<lambda>hash char. hash * 31 + of_nat char) 0 (runes L text)"

definition placeholder_component :: "('f, 'd) golib \<Rightarrow> 32 word \<Rightarrow> nat \<Rightarrow> 'f" where
  "placeholder_component L hash i =
     (let seed = hash + of_nat i * 2654435761
      in f32_sub L
           (f32_mul L (f32_div L (f32_of_int L (uint seed)) (f32_of_int L 4294967295))
                      (f32_of_int L 2))
           (f32_of_int L 1))"

definition generatePlaceholderEmbedding ::
  "('f, 'd) golib \<Rightarrow> 'f EmbeddingService \<Rightarrow> string \<Rightarrow> 'f list" where
  "generatePlaceholderEmbedding L s text =
     normalize L (map (placeholder_component L (placeholder_hash L text)) [0..<Dimensions])"

text \<open>
  \<open>EmbedQuery\<close> and \<open>EmbedDocument\<close> of \<open>EmbeddingService\<close>: the ONNX service when
  there is one and it succeeds, else the simple service when there is one and it
  succeeds, else the placeholder of the prefixed text. The result type keeps Go's
  \<open>([]float32, error)\<close>.
\<close>

definition EmbedQuery ::
  "('f, 'd) golib \<Rightarrow> 'f EmbeddingService \<Rightarrow> string \<Rightarrow> embed_error + 'f list" where
  "EmbedQuery L s text =
     (case (case realOnnxService s of
              None \<Rightarrow> None
            | Some onnx \<Rightarrow> (case ONNX_EmbedQuery onnx text of
                              Inr embedding \<Rightarrow> Some embedding | Inl err \<Rightarrow> None)) of
        Some embedding \<Rightarrow> Inr embedding
      | None \<Rightarrow>
          (case (case simpleService s of
                   None \<Rightarrow> None
                 | Some simple \<Rightarrow> (case Simple_EmbedQuery L simple text of
                                     Inr embedding \<Rightarrow> Some embedding | Inl err \<Rightarrow> None)) of
             Some embedding \<Rightarrow> Inr embedding
           | None \<Rightarrow> Inr (generatePlaceholderEmbedding L s (QueryPrefix @ text))))"

definition EmbedDocument ::
  "('f, 'd) golib \<Rightarrow> 'f EmbeddingService \<Rightarrow> string \<Rightarrow> embed_error + 'f list" where
  "EmbedDocument L s text =
     (case (case realOnnxService s of
              None \<Rightarrow> None
            | Some onnx \<Rightarrow> (case ONNX_EmbedDocument onnx text of
                              Inr embedding \<Rightarrow> Some embedding | Inl err \<Rightarrow> None)) of
        Some embedding \<Rightarrow> Inr embedding
      | None \<Rightarrow>
          (case (case simpleService s of
                   None \<Rightarrow> None
                 | Some simple \<Rightarrow> (case Simple_EmbedDocument L simple text of
                                     Inr embedding \<Rightarrow> Some embedding | Inl err \<Rightarrow> None)) of
             Some embedding \<Rightarrow> Inr embedding
           | None \<Rightarrow> Inr (generatePlaceholderEmbedding L s (DocumentPrefix @ text))))"

definition InitializeWithPrecomputedData ::
  "'f EmbeddingService \<Rightarrow> (string \<rightharpoonup> 'f list) \<Rightarrow> (string \<rightharpoonup> string) \<Rightarrow> 'f EmbeddingService" where
  "InitializeWithPrecomputedData s embs texts =
     (case simpleService s of
        None \<Rightarrow> s
      | Some simple \<Rightarrow> s\<lparr>simpleService := Some (Initialize simple embs texts)\<rparr>)"

section \<open>SearchService: loading (internal/search/search.go)\<close>

text \<open>
  What \<open>json.Unmarshal\<close> puts into an \<open>interface{}\<close>: \<open>nil\<close>, \<open>bool\<close>,
  \<open>float64\<close>, \<open>string\<close>, \<open>[]interface{}\<close> or \<open>map[string]interface{}\<close>
  (an association list, read with \<open>map_of\<close>).
\<close>

datatype 'd json =
    JNull
  | JBool bool
  | JNumber 'd
  | JString string
  | JArray "'d json list"
  | JObject "(string \<times> 'd json) list"

datatype fetch_error = FetchFailed | HTTPStatus int | ReadFailed | GzipFailed | ParseFailed

datatype service_error =
    UnknownGranularity string
  | LoadEmbeddingsFailed fetch_error
  | LoadTextFailed fetch_error
  | GranularityNotLoaded string
  | QueryEmbeddingFailed embed_error

text \<open>What a method of the service does: return a value, return an error, or panic.\<close>

datatype 'a outcome = Value 'a | Error service_error | Panic panic

text \<open>
  Go maps that the code only reads by key are HOL maps. \<open>indices\<close>, which
  \<open>GetStatus\<close> ranges over, is an association list with one entry per key, in some
  iteration order. \<open>loadedGranularities\<close> is read with Go's default \<open>false\<close> for a
  missing key, so it is a function to \<open>bool\<close>.
\<close>

record ('f, 'd) SearchService =
  embeddings :: "'f EmbeddingService"
  indices :: "(string \<times> 'f VectorIndex) list"
  textLookup :: "string \<rightharpoonup> (string \<rightharpoonup> TextData)"
  loadedGranularities :: "string \<Rightarrow> bool"
  cache :: "string \<rightharpoonup> 'd json"

definition NewSearchService :: "'f EmbeddingService \<Rightarrow> ('f, 'd) SearchService" where
  "NewSearchService embeddingService =
     \<lparr>embeddings = embeddingService, indices = [], textLookup = Map.empty,
      loadedGranularities = (\<lambda>_. False), cache = Map.empty\<rparr>"

text \<open>The URLs of \<open>config.ArweaveURLs\<close>: (embeddings, uncompressed fallback, text).\<close>

definition granularity_urls :: "string \<Rightarrow> (string \<times> string \<times> string) option" where
  "granularity_urls granularity =
     (if granularity = ''verse'' then
        Some (''https://arweave.net/DdKgzVD1zJDlFqcPKnOf620EviiU5LoGDqxrv5wxxUY'',
              ''https://arweave.net/uW8W0WE37IsmZuuH5NJxfrDLWjf_vFFK5v4MmzL2Gco'',
              ''https://arweave.net/daKtqqHpLRnAWCNEWY8Q92NwSyJxWbm7WFDE3ut_BuM'')
      else if granularity = ''chapter'' then
        Some (''https://arweave.net/RLfnXY9-kD9McjalEhGgcK3ZZH9G_dXcfh6unygV1s8'',
              ''https://arweave.net/JyOVgeD6IlWnIg8e24cPQgEidAADriGexHbhZ0Hs6Fo'',
              ''https://arweave.net/daKtqqHpLRnAWCNEWY8Q92NwSyJxWbm7WFDE3ut_BuM'')
      else None)"

text \<open>
  \<open>loadFromURL\<close>: the cached value when the URL is cached; otherwise the HTTP GET,
  the optional gunzip and the JSON parse, which are the argument \<open>fetch\<close> (the network
  as it answers this call), and a successful result is stored in the cache.
\<close>

definition loadFromURL ::
  "(string \<Rightarrow> bool \<Rightarrow> fetch_error + 'd json) \<Rightarrow> ('f, 'd) SearchService \<Rightarrow> string \<Rightarrow> bool
    \<Rightarrow> (fetch_error + 'd json) \<times> ('f, 'd) SearchService" where
  "loadFromURL fetch s url compressed =
     (case cache s url of
        Some cached \<Rightarrow> (Inr cached, s)
      | None \<Rightarrow>
          (case fetch url compressed of
             Inl err \<Rightarrow> (Inl err, s)
           | Inr result \<Rightarrow> (Inr result, s\<lparr>cache := (cache s)(url \<mapsto> result)\<rparr>)))"

definition loadWithFallback ::
  "(string \<Rightarrow> bool \<Rightarrow> fetch_error + 'd json) \<Rightarrow> ('f, 'd) SearchService \<Rightarrow> string \<Rightarrow> string
    \<Rightarrow> (fetch_error + 'd json) \<times> ('f, 'd) SearchService" where
  "loadWithFallback fetch s primaryURL fallbackURL =
     (case loadFromURL fetch s primaryURL True of
        (Inr data, s') \<Rightarrow> (Inr data, s')
      | (Inl err, s') \<Rightarrow> loadFromURL fetch s' fallbackURL False)"

text \<open>\<open>fmt.Sprintf("%d", n)\<close>: the decimal digits, with a leading minus sign.\<close>

fun digits10 :: "nat \<Rightarrow> string" where
  "digits10 n =
     (if n < 10 then [char_of (48 + n)] else digits10 (n div 10) @ [char_of (48 + n mod 10)])"

declare digits10.simps [simp del]

definition fmt_d :: "int \<Rightarrow> string" where
  "fmt_d n = (if n < 0 then CHR ''-'' # digits10 (nat (- n)) else digits10 (nat n))"

definition getStringField :: "(string \<times> 'd json) list \<Rightarrow> string \<Rightarrow> string" where
  "getStringField m key = (case map_of m key of Some (JString val) \<Rightarrow> val | _ \<Rightarrow> [])"

text \<open>
  \<open>getIntField\<close>: a decoded JSON value is never a Go \<open>int\<close>, so that branch of the
  source has no counterpart among the constructors.
\<close>

definition getIntField :: "('f, 'd) golib \<Rightarrow> (string \<times> 'd json) list \<Rightarrow> string \<Rightarrow> int" where
  "getIntField L m key =
     (case map_of m key of
        Some (JNumber val) \<Rightarrow> int_of_f64 L val
      | Some (JString val) \<Rightarrow> sscanf_d L val
      | _ \<Rightarrow> 0)"

fun interfaceSliceToStringSlice :: "'d json list \<Rightarrow> string list" where
  "interfaceSliceToStringSlice [] = []"
| "interfaceSliceToStringSlice (JString str # items) = str # interfaceSliceToStringSlice items"
| "interfaceSliceToStringSlice (item # items) = interfaceSliceToStringSlice items"

definition string_slice_field :: "(string \<times> 'd json) list \<Rightarrow> string \<Rightarrow> string list" where
  "string_slice_field m key =
     (case map_of m key of Some (JArray xs) \<Rightarrow> interfaceSliceToStringSlice xs | _ \<Rightarrow> [])"

definition verse_TextData :: "('f, 'd) golib \<Rightarrow> (string \<times> 'd json) list \<Rightarrow> TextData" where
  "verse_TextData L verse =
     \<lparr>Text = getStringField verse ''text'',
      Meta = \<lparr>Reference = getStringField verse ''ref'',
              Book = getStringField verse ''book'',
              Chapter = getIntField L verse ''chapter'',
              VerseNum = getIntField L verse ''verseNum'',
              Events = string_slice_field verse ''events'',
              Entities = string_slice_field verse ''entities''\<rparr>\<rparr>"

definition possibleIDs :: "string \<Rightarrow> nat \<Rightarrow> Metadata \<Rightarrow> string list" where
  "possibleIDs granularity i m =
     [Reference m,
      ''verse:'' @ Book m @ '':'' @ fmt_d (Chapter m) @ '':'' @ fmt_d (VerseNum m),
      ''chapter:'' @ Book m @ '':'' @ fmt_d (Chapter m),
      granularity @ ''_'' @ fmt_d (int i),
      Book m @ ''.'' @ fmt_d (Chapter m) @ ''.'' @ fmt_d (VerseNum m),
      Book m @ ''_'' @ fmt_d (Chapter m) @ ''_'' @ fmt_d (VerseNum m),
      fmt_d (int i),
      ''v'' @ fmt_d (int i)]"

definition store_ids ::
  "(string \<rightharpoonup> TextData) \<Rightarrow> string list \<Rightarrow> TextData \<Rightarrow> (string \<rightharpoonup> TextData)" where
  "store_ids lookup ids textData =
     foldl (\<lambda>lk eid. if eid \<noteq> [] then lk(eid \<mapsto> textData) else lk) lookup ids"

fun processTextData_loop ::
  "('f, 'd) golib \<Rightarrow> string \<Rightarrow> nat \<Rightarrow> 'd json list \<Rightarrow> (string \<rightharpoonup> TextData)
    \<Rightarrow> (string \<rightharpoonup> TextData)" where
  "processTextData_loop L granularity i [] lookup = lookup"
| "processTextData_loop L granularity i (JObject verse # items) lookup =
     processTextData_loop L granularity (Suc i) items
       (store_ids lookup
          (possibleIDs granularity i (Meta (verse_TextData L verse))) (verse_TextData L verse))"
| "processTextData_loop L granularity i (item # items) lookup =
     processTextData_loop L granularity (Suc i) items lookup"

definition processTextData ::
  "('f, 'd) golib \<Rightarrow> 'd json \<Rightarrow> string \<Rightarrow> (string \<rightharpoonup> TextData)" where
  "processTextData L data granularity =
     (case data of
        JArray verses \<Rightarrow> processTextData_loop L granularity 0 verses Map.empty
      | _ \<Rightarrow> Map.empty)"

text \<open>
  The loop of \<open>PreloadGranularity\<close> over the payload's \<open>embeddings\<close> list. An item
  that is an object must hold a string under \<open>id\<close>: the source asserts the type
  without the comma-ok form, which panics otherwise. A component that is not a number
  stays at the zero of \<open>make\<close>.
\<close>

definition vec_of_json :: "('f, 'd) golib \<Rightarrow> 'd json list \<Rightarrow> 'f list" where
  "vec_of_json L vecData =
     map (\<lambda>v. case v of JNumber f \<Rightarrow> f32_of_f64 L f | _ \<Rightarrow> f32_of_int L 0) vecData"

fun embeddings_loop ::
  "('f, 'd) golib \<Rightarrow> 'd json list \<Rightarrow> 'f VectorIndex \<times> (string \<rightharpoonup> 'f list)
    \<Rightarrow> panic + 'f VectorIndex \<times> (string \<rightharpoonup> 'f list)" where
  "embeddings_loop L [] acc = Inr acc"
| "embeddings_loop L (JObject embedding # items) (index, embs) =
     (case map_of embedding ''id'' of
        Some (JString eid) \<Rightarrow>
          (case map_of embedding ''embedding'' of
             Some (JArray vecData) \<Rightarrow>
               embeddings_loop L items
                 (Add index eid (vec_of_json L vecData), embs(eid \<mapsto> vec_of_json L vecData))
           | _ \<Rightarrow> embeddings_loop L items (index, embs))
      | _ \<Rightarrow> Inl TypeAssertionFailed)"
| "embeddings_loop L (item # items) acc = embeddings_loop L items acc"

definition parse_embeddings ::
  "('f, 'd) golib \<Rightarrow> 'd json \<Rightarrow> panic + 'f VectorIndex \<times> (string \<rightharpoonup> 'f list)" where
  "parse_embeddings L embeddingData =
     (case embeddingData of
        JObject m \<Rightarrow>
          (case map_of m ''embeddings'' of
             Some (JArray embeddingsList) \<Rightarrow>
               embeddings_loop L embeddingsList (NewVectorIndex, Map.empty)
           | _ \<Rightarrow> Inr (NewVectorIndex, Map.empty))
      | _ \<Rightarrow> Inr (NewVectorIndex, Map.empty))"

text \<open>
  \<open>PreloadGranularity\<close> returns at once when the granularity is marked loaded.
  Otherwise it loads both payloads (each success is cached even when a later step
  fails), builds the index and the lookup table, stores them, primes the simple
  embedding service for \<open>verse\<close>, and marks the granularity loaded. The result pairs
  what the call does (\<open>Value ()\<close> is Go's \<open>nil\<close> error) with the service's state
  afterwards. Creating the cache directory only logs on failure and is left out.
\<close>

definition PreloadGranularity ::
  "('f, 'd) golib \<Rightarrow> (string \<Rightarrow> bool \<Rightarrow> fetch_error + 'd json) \<Rightarrow> ('f, 'd) SearchService
    \<Rightarrow> string \<Rightarrow> unit outcome \<times> ('f, 'd) SearchService" where
  "PreloadGranularity L fetch s granularity =
     (if loadedGranularities s granularity then (Value (), s)
      else case granularity_urls granularity of
        None \<Rightarrow> (Error (UnknownGranularity granularity), s)
      | Some (embeddingURL, fallbackURL, textURL) \<Rightarrow>
          (case loadWithFallback fetch s embeddingURL fallbackURL of
             (Inl err, s1) \<Rightarrow> (Error (LoadEmbeddingsFailed err), s1)
           | (Inr embeddingData, s1) \<Rightarrow>
               (case loadFromURL fetch s1 textURL False of
                  (Inl err, s2) \<Rightarrow> (Error (LoadTextFailed err), s2)
                | (Inr textData, s2) \<Rightarrow>
                    (case parse_embeddings L embeddingData of
                       Inl p \<Rightarrow> (Panic p, s2)
                     | Inr (index, embs) \<Rightarrow>
                         let s3 = s2\<lparr>indices := AList.update granularity index (indices s2)\<rparr>;
                             lookup = processTextData L textData granularity;
                             s4 = s3\<lparr>textLookup := (textLookup s3)(granularity \<mapsto> lookup)\<rparr>;
                             texts = (\<lambda>eid. map_option Text (lookup eid));
                             s5 = (if granularity = ''verse''
                                   then s4\<lparr>embeddings :=
                                            InitializeWithPrecomputedData (embeddings s4) embs texts\<rparr>
                                   else s4)
                         in (Value (),
                             s5\<lparr>loadedGranularities := (loadedGranularities s5)(granularity := True)\<rparr>)))))"

section \<open>SearchService: searching and status\<close>

text \<open>
  The filter of \<open>Search\<close>: with a book or a chapter option, an id passes when the
  lookup table has it, its book equals the option under \<open>strings.EqualFold\<close> (when
  the book option is set) and its chapter prints as the option (when the chapter
  option is set); with neither option every id passes.
\<close>

definition filterFunc ::
  "('f, 'd) golib \<Rightarrow> SearchOptions \<Rightarrow> (string \<rightharpoonup> TextData) \<Rightarrow> string \<Rightarrow> bool" where
  "filterFunc L options lookup eid =
     (if opt_Book options \<noteq> [] \<or> opt_Chapter options \<noteq> [] then
        (case lookup eid of
           Some text \<Rightarrow>
             if opt_Book options \<noteq> [] \<and> \<not> EqualFold L (Book (Meta text)) (opt_Book options)
             then False
             else if opt_Chapter options \<noteq> [] \<and> fmt_d (Chapter (Meta text)) \<noteq> opt_Chapter options
             then False
             else True
         | None \<Rightarrow> False)
      else True)"

text \<open>The join of a result with its text, or with the placeholder when the id is unknown.\<close>

definition join_text :: "(string \<rightharpoonup> TextData) \<Rightarrow> 'f SearchResult \<Rightarrow> 'f SearchResult" where
  "join_text lookup sr =
     (let textData =
            (case lookup (ID sr) of
               Some td \<Rightarrow> td
             | None \<Rightarrow> \<lparr>Text = ''[Text not found for ID: '' @ ID sr @ '']'', Meta = zero_Metadata\<rparr>)
      in \<lparr>ID = ID sr, Similarity = Similarity sr, Score = Score sr,
          Chunk = \<lparr>chunk_ID = ID sr, chunk_Text = Text textData, chunk_Meta = Meta textData\<rparr>\<rparr>)"

definition default_options :: "SearchOptions \<Rightarrow> SearchOptions" where
  "default_options options =
     (let o1 = (if opt_Granularity options = [] then options\<lparr>opt_Granularity := ''verse''\<rparr>
                else options)
      in if opt_K o1 = 0 then o1\<lparr>opt_K := 10\<rparr> else o1)"

text \<open>
  \<open>SearchService.Search\<close>. A granularity marked loaded without an index makes
  \<open>index\<close> a nil pointer, and the call of \<open>SearchWithFilter\<close> on it panics; a missing
  lookup table is a nil map, which reads as empty.
\<close>

definition SearchService_Search ::
  "('f, 'd) golib \<Rightarrow> ('f, 'd) SearchService \<Rightarrow> string \<Rightarrow> SearchOptions
    \<Rightarrow> 'f SearchResult list outcome" where
  "SearchService_Search L s query options0 =
     (if query = [] then Value []
      else
        let options = default_options options0 in
        if \<not> loadedGranularities s (opt_Granularity options)
        then Error (GranularityNotLoaded (opt_Granularity options))
        else
          let lookup = (case textLookup s (opt_Granularity options) of
                          Some t \<Rightarrow> t | None \<Rightarrow> Map.empty)
          in case EmbedQuery L (embeddings s) query of
               Inl err \<Rightarrow> Error (QueryEmbeddingFailed err)
             | Inr queryEmbedding \<Rightarrow>
                 (case map_of (indices s) (opt_Granularity options) of
                    None \<Rightarrow> Panic NilPointerDereference
                  | Some index \<Rightarrow>
                      (case SearchWithFilter L index queryEmbedding (opt_K options)
                              (filterFunc L options lookup) of
                         Inl p \<Rightarrow> Panic p
                       | Inr searchResults \<Rightarrow> Value (map (join_text lookup) searchResults))))"

text \<open>
  \<open>GetStatus\<close> ranges over \<open>indices\<close> and calls \<open>Size\<close> and \<open>GetMemoryUsage\<close> on
  each index; a panic of \<open>GetMemoryUsage\<close> ends the call.
\<close>

record IndexStatus =
  loaded :: bool
  status_count :: int
  memoryBytes :: int

fun GetStatus_loop ::
  "(string \<Rightarrow> bool) \<Rightarrow> (string \<times> 'f VectorIndex) list \<Rightarrow> (string \<times> IndexStatus) list
    \<Rightarrow> panic + (string \<times> IndexStatus) list" where
  "GetStatus_loop ld [] status = Inr status"
| "GetStatus_loop ld ((granularity, index) # rest) status =
     (case GetMemoryUsage index of
        Inl p \<Rightarrow> Inl p
      | Inr mem \<Rightarrow>
          GetStatus_loop ld rest
            (status @ [(granularity,
                        \<lparr>loaded = ld granularity, status_count = Size index, memoryBytes = mem\<rparr>)]))"

definition GetStatus :: "('f, 'd) SearchService \<Rightarrow> panic + (string \<times> IndexStatus) list" where
  "GetStatus s = GetStatus_loop (loadedGranularities s) (indices s) []"

section \<open>The HTTP handler's merge of the result count (internal/api)\<close>

text \<open>\<open>maxInt\<close> starts from 0 and keeps the largest value seen.\<close>

definition maxInt :: "int list \<Rightarrow> int" where
  "maxInt values = foldl (\<lambda>m v. if v > m then v else m) 0 values"

text \<open>The \<open>K\<close> field of the options the handler builds: \<open>maxInt(req.K, req.Options.K, 10)\<close>.\<close>

definition handler_K :: "int \<Rightarrow> int \<Rightarrow> int" where
  "handler_K req_K req_Options_K = maxInt [req_K, req_Options_K, 10]"

section \<open>Predicates used in the statements\<close>

text \<open>The two slices of an index built by \<open>NewVectorIndex\<close> and \<open>Add\<close> have one length.\<close>

definition wf_index :: "'f VectorIndex \<Rightarrow> bool" where
  "wf_index vi = (length (IDs vi) = length (Vectors vi))"

definition all_dimension :: "nat \<Rightarrow> 'f VectorIndex \<Rightarrow> bool" where
  "all_dimension D vi = list_all (\<lambda>v. length v = D) (Vectors vi)"

text \<open>The results of the entries that a filter accepts, in insertion order.\<close>

definition eligible ::
  "('f, 'd) golib \<Rightarrow> (string \<Rightarrow> bool) \<Rightarrow> 'f list \<Rightarrow> string list \<Rightarrow> 'f list list
    \<Rightarrow> 'f SearchResult list" where
  "eligible L accept query ids vecs =
     map (\<lambda>p. mk_result (fst p) (cosineSimilarity L query (snd p)))
         (filter (\<lambda>p. accept (fst p)) (zip ids vecs))"

text \<open>
  What the documentation of package \<open>sort\<close> asks of a \<open>less\<close> function (a transitive
  ordering: \<open>less\<close> is transitive, and so is its negation) together with
  irreflexivity, on the elements at hand. Go's \<open>>\<close> on floats meets it when no
  operand is a NaN.
\<close>

definition transitive_ordering_on :: "'a set \<Rightarrow> ('a \<Rightarrow> 'a \<Rightarrow> bool) \<Rightarrow> bool" where
  "transitive_ordering_on S lt =
     ((\<forall>a\<in>S. \<not> lt a a)
      \<and> (\<forall>a\<in>S. \<forall>b\<in>S. \<forall>c\<in>S. lt a b \<and> lt b c \<longrightarrow> lt a c)
      \<and> (\<forall>a\<in>S. \<forall>b\<in>S. \<forall>c\<in>S. \<not> lt a b \<and> \<not> lt b c \<longrightarrow> \<not> lt a c))"

text \<open>
  What \<open>sort.Slice\<close> promises: it permutes the slice, and the outcome is sorted by
  \<open>less\<close> when \<open>less\<close> is such an ordering. It does not promise stability.
\<close>

definition sort_Slice_contract :: "(('a \<Rightarrow> 'a \<Rightarrow> bool) \<Rightarrow> 'a list \<Rightarrow> 'a list) \<Rightarrow> bool" where
  "sort_Slice_contract srt =
     (\<forall>lt xs. mset (srt lt xs) = mset xs
        \<and> (transitive_ordering_on (set xs) lt
             \<longrightarrow> sorted_wrt (\<lambda>a b. \<not> lt b a) (srt lt xs)))"

text \<open>No later result has a strictly greater similarity than an earlier one.\<close>

definition descending :: "('f, 'd) golib \<Rightarrow> 'f SearchResult list \<Rightarrow> bool" where
  "descending L rs = sorted_wrt (\<lambda>a b. \<not> f32_gt L (Similarity b) (Similarity a)) rs"

section \<open>An instance of the library, to run the model on concrete inputs\<close>

text \<open>
  Exact real arithmetic stands in for the rounded \<open>float32\<close> and \<open>float64\<close>
  operations, a stable insertion sort for \<open>sort.Slice\<close>, and ASCII case folding for
  \<open>strings.EqualFold\<close>; a string's runes are its bytes (right for ASCII text). The
  remaining fields are not exercised by the examples: \<open>sscanf_d\<close> reads 0 and
  \<open>findBestTextMatches\<close> finds no verse.
\<close>

fun insert_by :: "('a \<Rightarrow> 'a \<Rightarrow> bool) \<Rightarrow> 'a \<Rightarrow> 'a list \<Rightarrow> 'a list" where
  "insert_by lt x [] = [x]"
| "insert_by lt x (y # ys) = (if lt y x then y # insert_by lt x ys else x # y # ys)"

definition insertion_sort :: "('a \<Rightarrow> 'a \<Rightarrow> bool) \<Rightarrow> 'a list \<Rightarrow> 'a list" where
  "insertion_sort lt xs = foldr (insert_by lt) xs []"

definition trunc :: "real \<Rightarrow> int" where
  "trunc x = (if x \<ge> 0 then \<lfloor>x\<rfloor> else \<lceil>x\<rceil>)"

definition ascii_lower :: "char \<Rightarrow> char" where
  "ascii_lower c =
     (let n = (of_char c :: nat) in if 65 \<le> n \<and> n \<le> 90 then char_of (n + 32) else c)"

definition exact_lib :: "(real, real) golib" where
  "exact_lib =
     \<lparr>f32_add = (+), f32_sub = (-), f32_mul = (*), f32_div = (/),
      f32_gt = (\<lambda>a b. a > b), f32_lt = (<), f32_eq = (=),
      f32_of_int = real_of_int, int_of_f32 = trunc,
      f64_of_f32 = (\<lambda>x. x), f32_of_f64 = (\<lambda>x. x), f64_sqrt = sqrt, f64_mul = (*),
      sort_Slice = insertion_sort,
      EqualFold = (\<lambda>s t. map ascii_lower s = map ascii_lower t),
      runes = map of_char,
      int_of_f64 = trunc,
      sscanf_d = (\<lambda>s. 0),
      findBestTextMatches = (\<lambda>texts query topK. [])\<rparr>"

subsection \<open>\<open>sort.Slice\<close> as Go runs it on a short slice\<close>

text \<open>
  The project's dependency list asks for Go 1.22.5 or later, where \<open>sort.Slice\<close> is
  \<open>pdqsort_func\<close> of package \<open>sort\<close>, called on the whole slice with
  \<open>limit = bits.Len(length)\<close>. The functions below are those of the library that
  run on a slice of at most 13 elements, which are compared and swapped in place;
  \<open>data.Less(i, j)\<close> is \<open>lt (xs ! i) (xs ! j)\<close> and \<open>data.Swap(i, j)\<close> is
  \<open>swap_at xs i j\<close>.
\<close>

definition swap_at :: "'a list \<Rightarrow> nat \<Rightarrow> nat \<Rightarrow> 'a list" where
  "swap_at xs i j = xs[i := xs ! j, j := xs ! i]"

text \<open>
  \<open>insertionSort_func\<close>: for \<open>i\<close> from \<open>a + 1\<close> below \<open>b\<close>, the element at
  \<open>i\<close> moves left (\<open>j\<close> from \<open>i\<close> down) while \<open>j > a\<close> and it is strictly less
  than its left neighbour.
\<close>

fun insertion_inner :: "('a \<Rightarrow> 'a \<Rightarrow> bool) \<Rightarrow> 'a list \<Rightarrow> nat \<Rightarrow> nat \<Rightarrow> 'a list" where
  "insertion_inner lt xs a 0 = xs"
| "insertion_inner lt xs a (Suc j) =
     (if Suc j > a \<and> lt (xs ! Suc j) (xs ! j)
      then insertion_inner lt (swap_at xs (Suc j) j) a j else xs)"

definition insertionSort_func :: "('a \<Rightarrow> 'a \<Rightarrow> bool) \<Rightarrow> 'a list \<Rightarrow> nat \<Rightarrow> nat \<Rightarrow> 'a list" where
  "insertionSort_func lt xs a b = foldl (\<lambda>ys i. insertion_inner lt ys a i) xs [a + 1 ..< b]"

text \<open>
  \<open>choosePivot_func\<close> on fewer than 50 elements (no ninther): with at least 8
  elements the median of the elements at \<open>a + l/4\<close>, \<open>a + l/4*2\<close>, \<open>a + l/4*3\<close>,
  found by \<open>median_func\<close> with three calls of \<open>order2_func\<close>, which count the pairs
  found out of order; no such pair gives \<open>increasingHint\<close>, and 12 of them
  (\<open>maxSwaps\<close>, out of reach without the ninther) \<open>decreasingHint\<close>.
\<close>

datatype sortedHint = unknownHint | increasingHint | decreasingHint

definition order2_func ::
  "('a \<Rightarrow> 'a \<Rightarrow> bool) \<Rightarrow> 'a list \<Rightarrow> nat \<Rightarrow> nat \<Rightarrow> nat \<Rightarrow> nat \<times> nat \<times> nat" where
  "order2_func lt xs a b swaps = (if lt (xs ! b) (xs ! a) then (b, a, swaps + 1) else (a, b, swaps))"

definition median_func ::
  "('a \<Rightarrow> 'a \<Rightarrow> bool) \<Rightarrow> 'a list \<Rightarrow> nat \<Rightarrow> nat \<Rightarrow> nat \<Rightarrow> nat \<Rightarrow> nat \<times> nat" where
  "median_func lt xs a b c swaps =
     (case order2_func lt xs a b swaps of (a1, b1, s1) \<Rightarrow>
      case order2_func lt xs b1 c s1 of (b2, c2, s2) \<Rightarrow>
      case order2_func lt xs a1 b2 s2 of (a3, b3, s3) \<Rightarrow> (b3, s3))"

definition choosePivot_func ::
  "('a \<Rightarrow> 'a \<Rightarrow> bool) \<Rightarrow> 'a list \<Rightarrow> nat \<Rightarrow> nat \<Rightarrow> nat \<times> sortedHint" where
  "choosePivot_func lt xs a b =
     (let l = b - a; i = a + l div 4 * 1; j = a + l div 4 * 2; k = a + l div 4 * 3
      in case (if l \<ge> 8 then median_func lt xs i j k 0 else (j, 0)) of
           (j', swaps) \<Rightarrow>
             (j', if swaps = 0 then increasingHint
                  else if swaps = 4 * 3 then decreasingHint else unknownHint))"

text \<open>
  \<open>partialInsertionSort_func\<close> on fewer than 50 elements (\<open>shortestShifting\<close>): it
  passes over the pairs in order from \<open>a + 1\<close> and answers whether it reached \<open>b\<close>;
  it changes nothing.
\<close>

function skip_ordered :: "('a \<Rightarrow> 'a \<Rightarrow> bool) \<Rightarrow> 'a list \<Rightarrow> nat \<Rightarrow> nat \<Rightarrow> nat" where
  "skip_ordered lt xs i b =
     (if i < b \<and> \<not> lt (xs ! i) (xs ! (i - 1)) then skip_ordered lt xs (Suc i) b else i)"
  by pat_completeness auto
termination by (relation "measure (\<lambda>(lt, xs, i, b). b - i)") auto

declare skip_ordered.simps [simp del]

definition partialInsertionSort_func :: "('a \<Rightarrow> 'a \<Rightarrow> bool) \<Rightarrow> 'a list \<Rightarrow> nat \<Rightarrow> nat \<Rightarrow> bool" where
  "partialInsertionSort_func lt xs a b = (skip_ordered lt xs (a + 1) b = b)"

text \<open>
  \<open>partition_func\<close>: the pivot goes to \<open>a\<close>; \<open>i\<close> moves up from \<open>a + 1\<close> past
  the elements less than the pivot and \<open>j\<close> down from \<open>b - 1\<close> past those not less
  (\<open>i\<close> is at least \<open>a + 1\<close>, so \<open>j\<close> stops at 0 at the latest); when they have not
  crossed, the two elements are swapped and the loop goes on; at the end the pivot goes
  to \<open>j\<close>. The result is the slice, the pivot's place and whether the slice was
  already partitioned.
\<close>

function scan_up :: "('a \<Rightarrow> 'a \<Rightarrow> bool) \<Rightarrow> 'a list \<Rightarrow> nat \<Rightarrow> nat \<Rightarrow> nat \<Rightarrow> nat" where
  "scan_up lt xs a i j =
     (if i \<le> j \<and> lt (xs ! i) (xs ! a) then scan_up lt xs a (Suc i) j else i)"
  by pat_completeness auto
termination by (relation "measure (\<lambda>(lt, xs, a, i, j). Suc j - i)") auto

declare scan_up.simps [simp del]

fun scan_down :: "('a \<Rightarrow> 'a \<Rightarrow> bool) \<Rightarrow> 'a list \<Rightarrow> nat \<Rightarrow> nat \<Rightarrow> nat \<Rightarrow> nat" where
  "scan_down lt xs a i 0 = 0"
| "scan_down lt xs a i (Suc j) =
     (if i \<le> Suc j \<and> \<not> lt (xs ! Suc j) (xs ! a) then scan_down lt xs a i j else Suc j)"

function partition_loop ::
  "('a \<Rightarrow> 'a \<Rightarrow> bool) \<Rightarrow> 'a list \<Rightarrow> nat \<Rightarrow> nat \<Rightarrow> nat \<Rightarrow> 'a list \<times> nat" where
  "partition_loop lt xs a i j =
     (let i' = scan_up lt xs a i j; j' = scan_down lt xs a i' j
      in if i' > j' then (xs, j')
         else partition_loop lt (swap_at xs i' j') a (Suc i') (j' - 1))"
  by pat_completeness auto
termination
proof (relation "measure (\<lambda>(lt, xs, a, i, j). Suc j - i)")
  show "wf (measure (\<lambda>(lt :: 'a \<Rightarrow> 'a \<Rightarrow> bool, xs :: 'a list, a :: nat, i, j). Suc j - i))"
    by simp
next
  fix lt :: "'a \<Rightarrow> 'a \<Rightarrow> bool" and xs :: "'a list" and a i j i' j' :: nat
  assume i': "i' = scan_up lt xs a i j" and j': "j' = scan_down lt xs a i' j"
     and le: "\<not> j' < i'"
  have up: "i \<le> scan_up lt xs a i j"
    by (induction lt xs a i j rule: scan_up.induct) (subst scan_up.simps, auto)
  have down: "scan_down lt xs a i' j \<le> j"
    by (induction j) auto
  from up down i' j' le
  show "((lt, swap_at xs i' j', a, Suc i', j' - 1), (lt, xs, a, i, j))
          \<in> measure (\<lambda>(lt, xs, a, i, j). Suc j - i)"
    by auto
qed

declare partition_loop.simps [simp del]

definition partition_func ::
  "('a \<Rightarrow> 'a \<Rightarrow> bool) \<Rightarrow> 'a list \<Rightarrow> nat \<Rightarrow> nat \<Rightarrow> nat \<Rightarrow> 'a list \<times> nat \<times> bool" where
  "partition_func lt xs a b pivot =
     (let xs1 = swap_at xs a pivot;
          i = scan_up lt xs1 a (a + 1) (b - 1);
          j = scan_down lt xs1 a i (b - 1)
      in if i > j then (swap_at xs1 j a, j, True)
         else case partition_loop lt (swap_at xs1 i j) a (i + 1) (j - 1) of
                (xs2, j') \<Rightarrow> (swap_at xs2 j' a, j', False))"

text \<open>
  \<open>pdqsort_func\<close> from \<open>a = 0\<close> to \<open>b = length xs\<close>. At most 12 elements
  (\<open>maxInsertion\<close>) are sorted by insertion. With 13 elements, \<open>limit\<close> is 4 and
  \<open>wasBalanced\<close> and \<open>wasPartitioned\<close> are true, so neither the heap sort nor the
  pattern breaking runs; \<open>a\<close> is 0, so \<open>partitionEqual_func\<close> does not run; after the
  partition each side has at most 12 elements, and the recursive call on the shorter
  side and the next round of the loop on the other are insertion sorts. A longer slice,
  and the \<open>decreasingHint\<close> that 13 elements cannot produce, are outside this model:
  the result is \<open>None\<close>, and \<open>Slice\<close> then hands the slice back as it is.
\<close>

definition pdqsort_func :: "('a \<Rightarrow> 'a \<Rightarrow> bool) \<Rightarrow> 'a list \<Rightarrow> 'a list option" where
  "pdqsort_func lt xs =
     (let b = length xs in
      if b \<le> 12 then Some (insertionSort_func lt xs 0 b)
      else if b > 13 then None
      else
        case choosePivot_func lt xs 0 b of (pivot, hint) \<Rightarrow>
          if hint = decreasingHint then None
          else if hint = increasingHint \<and> partialInsertionSort_func lt xs 0 b then Some xs
          else
            case partition_func lt xs 0 b pivot of (ys, mid, alreadyPartitioned) \<Rightarrow>
              if mid - 0 < b - mid
              then Some (insertionSort_func lt (insertionSort_func lt ys 0 mid) (mid + 1) b)
              else Some (insertionSort_func lt (insertionSort_func lt ys (mid + 1) b) 0 mid))"

definition Slice :: "('a \<Rightarrow> 'a \<Rightarrow> bool) \<Rightarrow> 'a list \<Rightarrow> 'a list" where
  "Slice lt xs = (case pdqsort_func lt xs of Some ys \<Rightarrow> ys | None \<Rightarrow> xs)"

subsection \<open>An instance with NaN\<close>

text \<open>
  The finite floats as reals, without rounding, and NaN as \<open>None\<close>: an operation on
  a NaN gives NaN, every comparison with a NaN is false, and so is \<open>NaN == NaN\<close>.
  There are no infinities: the quotient by zero and the square root of a negative
  number are NaN, and the integer of a NaN, which Go leaves to the implementation, is 0.
  \<open>sort.Slice\<close> is the function above.
\<close>

definition nan_lift2 :: "(real \<Rightarrow> real \<Rightarrow> real) \<Rightarrow> real option \<Rightarrow> real option \<Rightarrow> real option" where
  "nan_lift2 f a b = (case (a, b) of (Some x, Some y) \<Rightarrow> Some (f x y) | _ \<Rightarrow> None)"

definition nan_rel :: "(real \<Rightarrow> real \<Rightarrow> bool) \<Rightarrow> real option \<Rightarrow> real option \<Rightarrow> bool" where
  "nan_rel r a b = (case (a, b) of (Some x, Some y) \<Rightarrow> r x y | _ \<Rightarrow> False)"

definition nan_div :: "real option \<Rightarrow> real option \<Rightarrow> real option" where
  "nan_div a b =
     (case (a, b) of (Some x, Some y) \<Rightarrow> if y = 0 then None else Some (x / y) | _ \<Rightarrow> None)"

definition nan_sqrt :: "real option \<Rightarrow> real option" where
  "nan_sqrt a = (case a of Some x \<Rightarrow> if x < 0 then None else Some (sqrt x) | None \<Rightarrow> None)"

definition nan_trunc :: "real option \<Rightarrow> int" where
  "nan_trunc a = (case a of Some x \<Rightarrow> trunc x | None \<Rightarrow> 0)"

definition nan_lib :: "(real option, real option) golib" where
  "nan_lib =
     \<lparr>f32_add = nan_lift2 (+), f32_sub = nan_lift2 (-), f32_mul = nan_lift2 (*),
      f32_div = nan_div,
      f32_gt = nan_rel (\<lambda>a b. a > b), f32_lt = nan_rel (<), f32_eq = nan_rel (=),
      f32_of_int = (\<lambda>i. Some (real_of_int i)), int_of_f32 = nan_trunc,
      f64_of_f32 = (\<lambda>x. x), f32_of_f64 = (\<lambda>x. x), f64_sqrt = nan_sqrt,
      f64_mul = nan_lift2 (*),
      sort_Slice = Slice,
      EqualFold = (\<lambda>s t. map ascii_lower s = map ascii_lower t),
      runes = map of_char,
      int_of_f64 = nan_trunc,
      sscanf_d = (\<lambda>s. 0),
      findBestTextMatches = (\<lambda>texts query topK. [])\<rparr>"

text \<open>
  Two indices over this instance: thirteen entries of which the first twelve hold the
  same vector, and three entries of which the second holds a NaN.
\<close>

definition thirteen_entries :: "real option VectorIndex" where
  "thirteen_entries =
     Add (Add (Add (Add (Add (Add (Add (Add (Add (Add (Add (Add (Add NewVectorIndex
       ''v00'' [Some 0, Some 1])
       ''v01'' [Some 0, Some 1])
       ''v02'' [Some 0, Some 1])
       ''v03'' [Some 0, Some 1])
       ''v04'' [Some 0, Some 1])
       ''v05'' [Some 0, Some 1])
       ''v06'' [Some 0, Some 1])
       ''v07'' [Some 0, Some 1])
       ''v08'' [Some 0, Some 1])
       ''v09'' [Some 0, Some 1])
       ''v10'' [Some 0, Some 1])
       ''v11'' [Some 0, Some 1])
       ''v12'' [Some 1, Some 0]"

definition nan_entry :: "real option VectorIndex" where
  "nan_entry =
     Add (Add (Add NewVectorIndex ''A'' [Some 0, Some 1]) ''B'' [None, Some 0])
       ''C'' [Some 1, Some 0]"

text \<open>
  A service as \<open>NewSearchService\<close> makes it, around an embedding service that has
  no ONNX service and a simple service not yet initialized; a network that answers no
  request; and a network whose payloads hold no embedding and no text.
\<close>

definition bare_embeddings :: "real EmbeddingService" where
  "bare_embeddings =
     \<lparr>modelLoaded = False, realOnnxService = None,
      simpleService = Some NewSimpleEmbeddingService, usePrecomputed = True\<rparr>"

definition fresh_service :: "(real, real) SearchService" where
  "fresh_service = NewSearchService bare_embeddings"

definition no_network :: "string \<Rightarrow> bool \<Rightarrow> fetch_error + real json" where
  "no_network url compressed = Inl FetchFailed"

definition empty_payloads :: "string \<Rightarrow> bool \<Rightarrow> fetch_error + real json" where
  "empty_payloads url compressed =
     (if url = ''https://arweave.net/daKtqqHpLRnAWCNEWY8Q92NwSyJxWbm7WFDE3ut_BuM''
      then Inr (JArray [])
      else Inr (JObject [(''embeddings'', JArray [])]))"

definition after_empty_load :: "(real, real) SearchService" where
  "after_empty_load = snd (PreloadGranularity exact_lib empty_payloads fresh_service ''verse'')"

text \<open>
  A network whose payloads hold two verses, Matthew 5:3 under the id \<open>id2\<close> and
  John 3:16 under the id \<open>id1\<close>, in this order, each with an embedding of two
  components; the service after it has loaded them; and two sets of options, one that
  asks for the book \<open>JOHN\<close> and one with no filter.
\<close>

definition two_books_payloads :: "string \<Rightarrow> bool \<Rightarrow> fetch_error + real json" where
  "two_books_payloads url compressed =
     (if url = ''https://arweave.net/daKtqqHpLRnAWCNEWY8Q92NwSyJxWbm7WFDE3ut_BuM''
      then Inr (JArray
             [JObject [(''ref'', JString ''id2''), (''book'', JString ''Matthew''),
                       (''chapter'', JNumber 5), (''verseNum'', JNumber 3),
                       (''text'', JString ''Blessed are the poor in spirit'')],
              JObject [(''ref'', JString ''id1''), (''book'', JString ''John''),
                       (''chapter'', JNumber 3), (''verseNum'', JNumber 16),
                       (''text'', JString ''For God so loved the world'')]])
      else Inr (JObject [(''embeddings'', JArray
             [JObject [(''id'', JString ''id2''), (''embedding'', JArray [JNumber 1, JNumber 0])],
              JObject [(''id'', JString ''id1''), (''embedding'', JArray [JNumber 0, JNumber 1])]])]))"

definition after_two_books_load :: "(real, real) SearchService" where
  "after_two_books_load =
     snd (PreloadGranularity exact_lib two_books_payloads fresh_service ''verse'')"

definition book_john :: SearchOptions where
  "book_john = \<lparr>opt_Book = ''JOHN'', opt_Chapter = [], opt_Verse = [],
                 opt_Granularity = ''verse'', opt_K = 10\<rparr>"

definition john_3_16 :: TextData where
  "john_3_16 = \<lparr>Text = ''For God so loved the world'',
                 Meta = \<lparr>Reference = ''id1'', Book = ''John'', Chapter = 3, VerseNum = 16,
                         Events = [], Entities = []\<rparr>\<rparr>"

definition no_filter :: SearchOptions where
  "no_filter = \<lparr>opt_Book = [], opt_Chapter = [], opt_Verse = [],
                 opt_Granularity = ''verse'', opt_K = 10\<rparr>"

section \<open>Supporting lemmas\<close>

subsection \<open>The contract of the sort, and a sort that meets it\<close>

lemma contract_mset: "sort_Slice_contract srt \<Longrightarrow> mset (srt lt xs) = mset xs"
  by (simp add: sort_Slice_contract_def)

lemma contract_set: "sort_Slice_contract srt \<Longrightarrow> set (srt lt xs) = set xs"
  using contract_mset [of srt lt xs] by (rule mset_eq_setD)

lemma contract_length: "sort_Slice_contract srt \<Longrightarrow> length (srt lt xs) = length xs"
  using contract_mset [of srt lt xs] by (rule mset_eq_length)

lemma contract_sorted:
  "sort_Slice_contract srt \<Longrightarrow> transitive_ordering_on (set xs) lt
   \<Longrightarrow> sorted_wrt (\<lambda>a b. \<not> lt b a) (srt lt xs)"
  by (simp add: sort_Slice_contract_def)

lemma mset_insert_by: "mset (insert_by lt x ys) = add_mset x (mset ys)"
  by (induction ys) auto

lemma set_insert_by: "set (insert_by lt x ys) = insert x (set ys)"
  by (induction ys) auto

lemma mset_insertion_sort: "mset (insertion_sort lt xs) = mset xs"
  by (induction xs) (auto simp: insertion_sort_def mset_insert_by)

lemma set_insertion_sort: "set (insertion_sort lt xs) = set xs"
  using mset_insertion_sort [of lt xs] by (rule mset_eq_setD)

lemma transitive_ordering_on_subset:
  "transitive_ordering_on S lt \<Longrightarrow> T \<subseteq> S \<Longrightarrow> transitive_ordering_on T lt"
  unfolding transitive_ordering_on_def subset_iff by blast

lemma ordering_irrefl: "transitive_ordering_on S lt \<Longrightarrow> a \<in> S \<Longrightarrow> \<not> lt a a"
  unfolding transitive_ordering_on_def by blast

lemma ordering_trans:
  "transitive_ordering_on S lt \<Longrightarrow> a \<in> S \<Longrightarrow> b \<in> S \<Longrightarrow> c \<in> S
   \<Longrightarrow> lt a b \<Longrightarrow> lt b c \<Longrightarrow> lt a c"
  unfolding transitive_ordering_on_def by blast

lemma ordering_negtrans:
  "transitive_ordering_on S lt \<Longrightarrow> a \<in> S \<Longrightarrow> b \<in> S \<Longrightarrow> c \<in> S
   \<Longrightarrow> \<not> lt a b \<Longrightarrow> \<not> lt b c \<Longrightarrow> \<not> lt a c"
  unfolding transitive_ordering_on_def by blast

lemma sorted_insert_by:
  assumes ord: "transitive_ordering_on (insert x (set ys)) lt"
      and srt: "sorted_wrt (\<lambda>a b. \<not> lt b a) ys"
  shows "sorted_wrt (\<lambda>a b. \<not> lt b a) (insert_by lt x ys)"
  using ord srt
proof (induction ys)
  case Nil
  then show ?case by simp
next
  case (Cons y ys)
  let ?S = "insert x (set (y # ys))"
  note O = Cons.prems(1)
  have sub: "insert x (set ys) \<subseteq> ?S" by auto
  have ord': "transitive_ordering_on (insert x (set ys)) lt"
    using transitive_ordering_on_subset [OF O sub] .
  have tail: "sorted_wrt (\<lambda>a b. \<not> lt b a) ys" using Cons.prems(2) by simp
  have head: "\<forall>z\<in>set ys. \<not> lt z y" using Cons.prems(2) by simp
  have IH: "sorted_wrt (\<lambda>a b. \<not> lt b a) (insert_by lt x ys)"
    using Cons.IH [OF ord' tail] .
  have xS: "x \<in> ?S" and yS: "y \<in> ?S" by simp_all
  show ?case
  proof (cases "lt y x")
    case True
    have "\<not> lt x y"
    proof
      assume "lt x y"
      from ordering_trans [OF O yS xS yS True this] have "lt y y" .
      with ordering_irrefl [OF O yS] show False by simp
    qed
    then show ?thesis using True IH head by (simp add: set_insert_by)
  next
    case False
    have "\<forall>z\<in>set ys. \<not> lt z x"
    proof
      fix z assume z: "z \<in> set ys"
      then have zS: "z \<in> ?S" by simp
      from z head have "\<not> lt z y" by simp
      from ordering_negtrans [OF O zS yS xS this False] show "\<not> lt z x" .
    qed
    then show ?thesis using False head tail by simp
  qed
qed

lemma sorted_insertion_sort:
  "transitive_ordering_on (set xs) lt \<Longrightarrow> sorted_wrt (\<lambda>a b. \<not> lt b a) (insertion_sort lt xs)"
proof (induction xs)
  case Nil
  then show ?case by (simp add: insertion_sort_def)
next
  case (Cons x xs)
  have sub: "set xs \<subseteq> set (x # xs)" by auto
  have IH: "sorted_wrt (\<lambda>a b. \<not> lt b a) (insertion_sort lt xs)"
    using Cons.IH [OF transitive_ordering_on_subset [OF Cons.prems sub]] .
  have "transitive_ordering_on (insert x (set (insertion_sort lt xs))) lt"
    using Cons.prems by (simp add: set_insertion_sort)
  from sorted_insert_by [OF this IH]
  show ?case by (simp add: insertion_sort_def)
qed

lemma insertion_sort_contract: "sort_Slice_contract insertion_sort"
  unfolding sort_Slice_contract_def
  using mset_insertion_sort sorted_insertion_sort by blast

lemma exact_lib_contract: "sort_Slice_contract (sort_Slice exact_lib)"
  unfolding exact_lib_def by (simp only: golib.simps insertion_sort_contract)

subsection \<open>The search loops and the truncation to k\<close>

lemma SearchWithFilter_loop_eq:
  "i + length vecs \<le> length ids \<Longrightarrow>
   SearchWithFilter_loop L accept query ids i vecs results
     = Inr (results @ eligible L accept query (drop i ids) vecs)"
proof (induction vecs arbitrary: i results)
  case Nil
  then show ?case by (simp add: eligible_def)
next
  case (Cons vec vecs)
  then have lt: "i < length ids" and le: "Suc i + length vecs \<le> length ids" by simp_all
  have d: "drop i ids = ids ! i # drop (Suc i) ids"
    using lt by (simp add: Cons_nth_drop_Suc)
  show ?case
    using lt Cons.IH [OF le] by (simp add: d eligible_def)
qed

lemma Search_loop_eq:
  "i + length vecs \<le> length ids \<Longrightarrow>
   Search_loop L query ids i vecs results
     = Inr (results @ eligible L (\<lambda>_. True) query (drop i ids) vecs)"
proof (induction vecs arbitrary: i results)
  case Nil
  then show ?case by (simp add: eligible_def)
next
  case (Cons vec vecs)
  then have lt: "i < length ids" and le: "Suc i + length vecs \<le> length ids" by simp_all
  have d: "drop i ids = ids ! i # drop (Suc i) ids"
    using lt by (simp add: Cons_nth_drop_Suc)
  show ?case
    using lt Cons.IH [OF le] by (simp add: d eligible_def)
qed

lemma length_eligible:
  "length ids = length vecs \<Longrightarrow>
   length (eligible L accept query ids vecs) = length (filter accept ids)"
proof (induction ids vecs rule: list_induct2)
  case Nil
  then show ?case by (simp add: eligible_def)
next
  case (Cons x xs y ys)
  then show ?case by (simp add: eligible_def)
qed

lemma SearchWithFilter_loop_wf:
  "wf_index vi \<Longrightarrow>
   SearchWithFilter_loop L accept query (IDs vi) 0 (Vectors vi) []
     = Inr (eligible L accept query (IDs vi) (Vectors vi))"
  using SearchWithFilter_loop_eq [of 0 "Vectors vi" "IDs vi" L accept query "[]"]
  by (simp add: wf_index_def)

lemma Search_loop_wf:
  "wf_index vi \<Longrightarrow>
   Search_loop L query (IDs vi) 0 (Vectors vi) []
     = Inr (eligible L (\<lambda>_. True) query (IDs vi) (Vectors vi))"
  using Search_loop_eq [of 0 "Vectors vi" "IDs vi" L query "[]"]
  by (simp add: wf_index_def)

lemma top_k_nonneg:
  "0 \<le> k \<Longrightarrow> top_k k xs = Inr (take (nat k) xs)"
  by (simp add: top_k_def Let_def)

lemma top_k_neg: "k < 0 \<Longrightarrow> top_k k xs = Inl (SliceBoundsOutOfRange k)"
  by (simp add: top_k_def)

lemma top_k_Inr: "top_k k xs = Inr rs \<Longrightarrow> rs = take (nat k) xs"
  by (simp add: top_k_def Let_def split: if_splits)

lemma wf_NewVectorIndex: "wf_index NewVectorIndex"
  by (simp add: wf_index_def NewVectorIndex_def)

lemma wf_Add: "wf_index vi \<Longrightarrow> wf_index (Add vi eid v)"
  by (simp add: wf_index_def Add_def)

lemma SearchWithFilter_length:
  assumes wf: "wf_index vi" and c: "sort_Slice_contract (sort_Slice L)" and k: "0 \<le> k"
  shows "\<exists>rs. SearchWithFilter L vi query k accept = Inr rs
           \<and> int (length rs) = min k (int (length (filter accept (IDs vi))))"
proof (cases "Vectors vi = []")
  case True
  with wf k show ?thesis by (simp add: SearchWithFilter_def wf_index_def)
next
  case False
  let ?el = "eligible L accept query (IDs vi) (Vectors vi)"
  let ?s = "sort_Slice L (by_similarity L) ?el"
  have len: "length ?s = length (filter accept (IDs vi))"
    using contract_length [OF c, of "by_similarity L" ?el]
          length_eligible [of "IDs vi" "Vectors vi" L accept query] wf
    by (simp add: wf_index_def)
  have "SearchWithFilter L vi query k accept = Inr (take (nat k) ?s)"
    using False
    by (simp add: SearchWithFilter_def SearchWithFilter_loop_wf [OF wf] top_k_nonneg [OF k])
  moreover have "int (length (take (nat k) ?s)) = min k (int (length (filter accept (IDs vi))))"
    using k unfolding length_take len by arith
  ultimately show ?thesis by blast
qed

lemma SearchWithFilter_negative_k:
  assumes wf: "wf_index vi" and ne: "Vectors vi \<noteq> []" and k: "k < 0"
  shows "SearchWithFilter L vi query k accept = Inl (SliceBoundsOutOfRange k)"
  using ne by (simp add: SearchWithFilter_def SearchWithFilter_loop_wf [OF wf] top_k_neg [OF k])

subsection \<open>Lengths of the embeddings, and the status loop\<close>

lemma length_normalize: "length (normalize L vec) = length vec"
  by (simp add: normalize_def Let_def)

lemma length_generatePlaceholderEmbedding:
  "length (generatePlaceholderEmbedding L s text) = Dimensions"
  by (simp add: generatePlaceholderEmbedding_def length_normalize)

lemma length_add_into: "length (add_into L rs e) = length rs"
  by (induction L rs e rule: add_into.induct) simp_all

lemma length_average_loop:
  "length (fst (average_loop L embs ids acc)) = length (fst acc)"
proof (induction ids arbitrary: acc)
  case Nil
  then show ?case by simp
next
  case (Cons verseID ids)
  obtain result cnt where acc: "acc = (result, cnt)" by (cases acc)
  show ?case
    by (cases "embs verseID") (simp_all add: acc Cons.IH length_add_into)
qed

lemma length_averageEmbeddings: "length (averageEmbeddings L s ids) = Dimensions"
proof -
  let ?z = "(replicate Dimensions (f32_of_int L 0), 0 :: int)"
  obtain result cnt where r: "average_loop L (verseEmbeddings s) ids ?z = (result, cnt)"
    by (cases "average_loop L (verseEmbeddings s) ids ?z")
  have "length result = Dimensions"
    using length_average_loop [of L "verseEmbeddings s" ids ?z] by (simp add: r)
  then show ?thesis by (simp add: averageEmbeddings_def r)
qed

lemma embed_length: "embed s text = Inr v \<Longrightarrow> length v = Dimensions"
  by (auto simp: embed_def split: if_splits sum.splits)

lemma Simple_EmbedQuery_length: "Simple_EmbedQuery L s text = Inr v \<Longrightarrow> length v = Dimensions"
  by (auto simp: Simple_EmbedQuery_def Let_def length_averageEmbeddings split: if_splits)

lemma GetStatus_loop_empty_index:
  "(g, vi) \<in> set idxs \<Longrightarrow> Vectors vi = [] \<Longrightarrow>
   GetStatus_loop ld idxs st = Inl (IndexOutOfRange 0 0)"
proof (induction idxs arbitrary: st)
  case Nil
  then show ?case by simp
next
  case (Cons p idxs)
  obtain g' vi' where p: "p = (g', vi')" by (cases p)
  show ?case
  proof (cases "Vectors vi'")
    case Nil
    then show ?thesis by (simp add: p GetMemoryUsage_def)
  next
    case (Cons v0 vs)
    then have "(g, vi) \<in> set idxs" using Cons.prems p \<open>Vectors vi = []\<close> by auto
    then show ?thesis using Cons.IH Cons.prems(2) \<open>Vectors vi' = v0 # vs\<close>
      by (simp add: p GetMemoryUsage_def)
  qed
qed

lemma sint_m128: "sint (word_of_int (- 128) :: 8 word) = - 128"
  by simp

subsection \<open>Sorted results\<close>

lemma transitive_ordering_onI:
  assumes "\<And>a. a \<in> S \<Longrightarrow> \<not> lt a a"
      and "\<And>a b c. a \<in> S \<Longrightarrow> b \<in> S \<Longrightarrow> c \<in> S \<Longrightarrow> lt a b \<Longrightarrow> lt b c \<Longrightarrow> lt a c"
      and "\<And>a b c. a \<in> S \<Longrightarrow> b \<in> S \<Longrightarrow> c \<in> S \<Longrightarrow> \<not> lt a b \<Longrightarrow> \<not> lt b c \<Longrightarrow> \<not> lt a c"
  shows "transitive_ordering_on S lt"
  unfolding transitive_ordering_on_def using assms by blast

lemma transitive_ordering_on_image:
  assumes "transitive_ordering_on (f ` S) lt"
  shows "transitive_ordering_on S (\<lambda>x y. lt (f x) (f y))"
proof (rule transitive_ordering_onI)
  fix a assume "a \<in> S"
  then show "\<not> lt (f a) (f a)" using ordering_irrefl [OF assms] by simp
next
  fix a b c assume "a \<in> S" "b \<in> S" "c \<in> S" "lt (f a) (f b)" "lt (f b) (f c)"
  then show "lt (f a) (f c)"
    using ordering_trans [OF assms, of "f a" "f b" "f c"] by simp
next
  fix a b c assume "a \<in> S" "b \<in> S" "c \<in> S" "\<not> lt (f a) (f b)" "\<not> lt (f b) (f c)"
  then show "\<not> lt (f a) (f c)"
    using ordering_negtrans [OF assms, of "f a" "f b" "f c"] by simp
qed

lemma Similarity_eligible:
  "Similarity ` set (eligible L accept query ids vecs) \<subseteq> set (map (cosineSimilarity L query) vecs)"
  by (auto simp: eligible_def mk_result_def dest: set_zip_rightD)

lemma real_gt_ordering: "transitive_ordering_on S (\<lambda>a b. (a :: real) > b)"
  by (rule transitive_ordering_onI) simp_all

lemma sorted_eligible:
  assumes c: "sort_Slice_contract (sort_Slice L)"
      and ord: "transitive_ordering_on (set (map (cosineSimilarity L query) (Vectors vi))) (f32_gt L)"
  shows "descending L (take n (sort_Slice L (by_similarity L)
                                  (eligible L accept query (IDs vi) (Vectors vi))))"
proof -
  let ?el = "eligible L accept query (IDs vi) (Vectors vi)"
  have "transitive_ordering_on (Similarity ` set ?el) (f32_gt L)"
    using transitive_ordering_on_subset [OF ord Similarity_eligible] .
  then have "transitive_ordering_on (set ?el) (\<lambda>x y. f32_gt L (Similarity x) (Similarity y))"
    by (rule transitive_ordering_on_image)
  then have "transitive_ordering_on (set ?el) (by_similarity L)"
    by (simp add: by_similarity_def [abs_def])
  from contract_sorted [OF c this]
  have "sorted_wrt (\<lambda>a b. \<not> by_similarity L b a) (sort_Slice L (by_similarity L) ?el)" .
  then have "sorted_wrt (\<lambda>a b. \<not> by_similarity L b a) (take n (sort_Slice L (by_similarity L) ?el))"
    by (rule sorted_wrt_take)
  then show ?thesis by (simp add: descending_def by_similarity_def)
qed

lemma sqrt_25: "sqrt 25 = 5"
  by (rule real_sqrt_unique) simp_all

lemma abc_search:
  "VectorIndex_Search exact_lib
     (Add (Add (Add NewVectorIndex ''A'' [1, 0]) ''B'' [0, 1]) ''C'' [3, 4]) [1, 0] 2
   = Inr [mk_result ''A'' 1, mk_result ''C'' (3 / 5)]"
  by (simp add: VectorIndex_Search_def Add_def NewVectorIndex_def cosineSimilarity_def
        cosine_step_def exact_lib_def insertion_sort_def by_similarity_def top_k_def
        mk_result_def sqrt_25)

subsection \<open>Loading\<close>

lemma Preload_loaded:
  "PreloadGranularity L fetch s g = (Value (), s') \<Longrightarrow> loadedGranularities s' g"
  by (auto simp: PreloadGranularity_def Let_def
           split: if_splits option.splits prod.splits sum.splits)

lemma empty_load_fst:
  "fst (PreloadGranularity exact_lib empty_payloads fresh_service ''verse'') = Value ()"
  by (simp add: PreloadGranularity_def granularity_urls_def loadWithFallback_def loadFromURL_def
        empty_payloads_def fresh_service_def NewSearchService_def parse_embeddings_def Let_def)

lemma empty_load_indices:
  "indices after_empty_load = [(''verse'', NewVectorIndex)]"
  by (simp add: after_empty_load_def PreloadGranularity_def granularity_urls_def
        loadWithFallback_def loadFromURL_def
        empty_payloads_def fresh_service_def NewSearchService_def parse_embeddings_def Let_def)

subsection \<open>The filter of a search\<close>

lemma SearchWithFilter_loop_accept:
  "SearchWithFilter_loop L accept query ids i vecs acc = Inr rs \<Longrightarrow> r \<in> set rs
   \<Longrightarrow> r \<in> set acc \<or> accept (ID r)"
proof (induction vecs arbitrary: i acc)
  case Nil
  then show ?case by simp
next
  case (Cons vec vecs)
  show ?case
  proof (cases "i \<ge> length ids")
    case True
    with Cons.prems show ?thesis by simp
  next
    case False
    show ?thesis
    proof (cases "accept (ids ! i)")
      case True
      with False Cons.prems(1)
      have "SearchWithFilter_loop L accept query ids (Suc i) vecs
              (acc @ [mk_result (ids ! i) (cosineSimilarity L query vec)]) = Inr rs" by simp
      from Cons.IH [OF this Cons.prems(2)] True show ?thesis
        by (auto simp: mk_result_def)
    next
      case no: False
      with False Cons.prems(1)
      have "SearchWithFilter_loop L accept query ids (Suc i) vecs acc = Inr rs" by simp
      from Cons.IH [OF this Cons.prems(2)] show ?thesis .
    qed
  qed
qed

lemma SearchWithFilter_accept:
  assumes c: "sort_Slice_contract (sort_Slice L)"
      and r: "SearchWithFilter L vi query k accept = Inr rs"
      and m: "r \<in> set rs"
  shows "accept (ID r)"
proof (cases "Vectors vi = []")
  case True
  with r m show ?thesis by (simp add: SearchWithFilter_def)
next
  case False
  obtain results where
    loop: "SearchWithFilter_loop L accept query (IDs vi) 0 (Vectors vi) [] = Inr results"
    and top: "top_k k (sort_Slice L (by_similarity L) results) = Inr rs"
    using r False by (auto simp: SearchWithFilter_def split: sum.splits)
  from top_k_Inr [OF top] m have "r \<in> set (sort_Slice L (by_similarity L) results)"
    by (auto dest: in_set_takeD)
  then have "r \<in> set results" by (simp add: contract_set [OF c])
  from SearchWithFilter_loop_accept [OF loop this] show ?thesis by simp
qed

lemma default_options_filters:
  "opt_Book (default_options options) = opt_Book options"
  "opt_Chapter (default_options options) = opt_Chapter options"
  by (simp_all add: default_options_def Let_def)

lemma filterFunc_book:
  "filterFunc L options lookup eid \<Longrightarrow> opt_Book options \<noteq> [] \<Longrightarrow>
   \<exists>text. lookup eid = Some text \<and> EqualFold L (Book (Meta text)) (opt_Book options)"
  by (auto simp: filterFunc_def split: option.splits if_splits)

lemma two_books_state:
  "loadedGranularities after_two_books_load ''verse''"
  "map_of (indices after_two_books_load) ''verse''
     = Some (Add (Add NewVectorIndex ''id2'' [1, 0]) ''id1'' [0, 1])"
  by (simp_all add: after_two_books_load_def PreloadGranularity_def granularity_urls_def
        loadWithFallback_def loadFromURL_def two_books_payloads_def fresh_service_def
        NewSearchService_def parse_embeddings_def vec_of_json_def exact_lib_def Let_def)

lemma digits10_0_1: "digits10 0 = ''0''" "digits10 (Suc 0) = ''1''"
  by (simp_all add: digits10.simps char_of_def drop_bit_eq_div bit_0)

lemma two_books_lookup:
  "\<exists>lk. textLookup after_two_books_load ''verse'' = Some lk
        \<and> lk ''id1'' = Some john_3_16
        \<and> (\<exists>td. lk ''id2'' = Some td \<and> Book (Meta td) = ''Matthew'')"
  by (simp add: after_two_books_load_def PreloadGranularity_def granularity_urls_def
        loadWithFallback_def loadFromURL_def two_books_payloads_def fresh_service_def
        NewSearchService_def parse_embeddings_def vec_of_json_def exact_lib_def Let_def
        processTextData_def store_ids_def possibleIDs_def verse_TextData_def
        getStringField_def getIntField_def string_slice_field_def john_3_16_def
        fmt_d_def trunc_def digits10_0_1)

lemma two_books_query:
  "EmbedQuery exact_lib (embeddings after_two_books_load) ''light''
     = Inr (generatePlaceholderEmbedding exact_lib (embeddings after_two_books_load)
              (QueryPrefix @ ''light''))"
  by (simp add: after_two_books_load_def PreloadGranularity_def granularity_urls_def
        loadWithFallback_def loadFromURL_def two_books_payloads_def fresh_service_def
        NewSearchService_def parse_embeddings_def vec_of_json_def exact_lib_def Let_def
        EmbedQuery_def bare_embeddings_def InitializeWithPrecomputedData_def
        Initialize_def NewSimpleEmbeddingService_def Simple_EmbedQuery_def)

lemma fold_JOHN: "EqualFold exact_lib ''John'' ''JOHN''" "\<not> EqualFold exact_lib ''Matthew'' ''JOHN''"
  by (simp_all add: exact_lib_def ascii_lower_def char_of_def drop_bit_eq_div bit_0)

lemma two_books_search:
  "SearchService_Search exact_lib after_two_books_load ''light'' book_john
     = Value [\<lparr>ID = ''id1'', Similarity = 0, Score = 0,
               Chunk = \<lparr>chunk_ID = ''id1'', chunk_Text = Text john_3_16,
                         chunk_Meta = Meta john_3_16\<rparr>\<rparr>]"
proof -
  from two_books_lookup obtain lk td where
    lk: "textLookup after_two_books_load ''verse'' = Some lk"
    and id1: "lk ''id1'' = Some john_3_16"
    and id2: "lk ''id2'' = Some td" "Book (Meta td) = ''Matthew''"
    by blast
  have book: "Book (Meta john_3_16) = ''John''" by (simp add: john_3_16_def)
  have len: "length (generatePlaceholderEmbedding exact_lib (embeddings after_two_books_load)
               (QueryPrefix @ ''light'')) = 128"
    by (simp add: length_generatePlaceholderEmbedding Dimensions_def)
  have zero: "f32_of_int exact_lib 0 = 0" by (simp add: exact_lib_def)
  have srt: "sort_Slice exact_lib = insertion_sort" by (simp add: exact_lib_def)
  show ?thesis
    by (simp add: SearchService_Search_def default_options_def book_john_def Let_def
          two_books_state two_books_query lk id1 id2 book fold_JOHN
          SearchWithFilter_def Add_def NewVectorIndex_def filterFunc_def
          cosineSimilarity_def len zero srt insertion_sort_def top_k_def mk_result_def
          join_text_def)
qed

subsection \<open>The searches on the two indices with NaN arithmetic\<close>

lemma nan_cosine:
  "cosineSimilarity nan_lib [Some 1, Some 0] [Some 0, Some 1] = Some 0"
  "cosineSimilarity nan_lib [Some 1, Some 0] [Some 1, Some 0] = Some 1"
  "cosineSimilarity nan_lib [Some 1, Some 0] [None, Some 0] = None"
  by (simp_all add: cosineSimilarity_def cosine_step_def nan_lib_def nan_lift2_def nan_rel_def
        nan_div_def nan_sqrt_def)

lemma thirteen_results:
  "Search_loop nan_lib [Some 1, Some 0] (IDs thirteen_entries) 0 (Vectors thirteen_entries) []
     = Inr [mk_result ''v00'' (Some 0), mk_result ''v01'' (Some 0), mk_result ''v02'' (Some 0),
      mk_result ''v03'' (Some 0), mk_result ''v04'' (Some 0), mk_result ''v05'' (Some 0),
      mk_result ''v06'' (Some 0), mk_result ''v07'' (Some 0), mk_result ''v08'' (Some 0),
      mk_result ''v09'' (Some 0), mk_result ''v10'' (Some 0), mk_result ''v11'' (Some 0),
      mk_result ''v12'' (Some 1)]"
  by (simp add: thirteen_entries_def Add_def NewVectorIndex_def nan_cosine)

lemma by_similarity_nan_lib:
  "by_similarity nan_lib = (\<lambda>x y. nan_rel (\<lambda>a b. a > b) (Similarity x) (Similarity y))"
  by (intro ext) (simp add: by_similarity_def nan_lib_def)

lemma thirteen_sorted:
  "Slice (\<lambda>x y. nan_rel (\<lambda>a b. a > b) (Similarity x) (Similarity y))
     [mk_result ''v00'' (Some 0), mk_result ''v01'' (Some 0), mk_result ''v02'' (Some 0),
   mk_result ''v03'' (Some 0), mk_result ''v04'' (Some 0), mk_result ''v05'' (Some 0),
   mk_result ''v06'' (Some 0), mk_result ''v07'' (Some 0), mk_result ''v08'' (Some 0),
   mk_result ''v09'' (Some 0), mk_result ''v10'' (Some 0), mk_result ''v11'' (Some 0),
   mk_result ''v12'' (Some 1)]
     = [mk_result ''v12'' (Some 1), mk_result ''v06'' (Some 0), mk_result ''v02'' (Some 0),
      mk_result ''v03'' (Some 0), mk_result ''v04'' (Some 0), mk_result ''v05'' (Some 0),
      mk_result ''v00'' (Some 0), mk_result ''v07'' (Some 0), mk_result ''v08'' (Some 0),
      mk_result ''v09'' (Some 0), mk_result ''v10'' (Some 0), mk_result ''v11'' (Some 0),
      mk_result ''v01'' (Some 0)]"
  by code_simp

lemma nan_sorted:
  "Slice (\<lambda>x y. nan_rel (\<lambda>a b. a > b) (Similarity x) (Similarity y))
     [mk_result ''A'' (Some 0), mk_result ''B'' None, mk_result ''C'' (Some 1)]
     = [mk_result ''A'' (Some 0), mk_result ''B'' None, mk_result ''C'' (Some 1)]"
  by code_simp

lemma nan_lib_sort: "sort_Slice nan_lib = Slice"
  by (simp add: nan_lib_def)

section \<open>Properties\<close>

text \<open>
  Claim C1. \<open>SearchWithFilter\<close> clamps \<open>k\<close> from above only. On an index that
  holds a vector, a negative \<open>k\<close> reaches \<open>results[:k]\<close> and the call panics
  instead of returning an empty result: here with one entry and \<open>k = -1\<close>, for
  every query and whatever the library does. (For \<open>k \<ge> 0\<close> the length is
  \<open>min k\<close> of the number of accepted entries: lemma \<open>SearchWithFilter_length\<close>.)
\<close>

theorem C1_negative_k_panics:
  "SearchWithFilter L (Add NewVectorIndex ''a'' [x]) query (- 1) (\<lambda>_. True)
     = Inl (SliceBoundsOutOfRange (- 1))"
  by (simp add: SearchWithFilter_def Add_def NewVectorIndex_def top_k_def)


text \<open>
  Claim C2, as amended. On an index built by \<open>Add\<close>, when \<open>sort.Slice\<close> keeps
  its contract and Go's \<open>>\<close> is a transitive ordering on the similarities of the
  stored vectors (no similarity is a NaN), the results of \<open>Search\<close> and of
  \<open>SearchWithFilter\<close> are in descending order of similarity. Nothing is promised
  about the order of entries whose similarities are equal: \<open>sort.Slice\<close> is not a
  stable sort.
\<close>

theorem C2_results_descending:
  assumes c: "sort_Slice_contract (sort_Slice L)"
      and wf: "wf_index vi"
      and ord: "transitive_ordering_on (set (map (cosineSimilarity L query) (Vectors vi))) (f32_gt L)"
  shows "(VectorIndex_Search L vi query k = Inr rs \<longrightarrow> descending L rs)
       \<and> (SearchWithFilter L vi query k accept = Inr rs' \<longrightarrow> descending L rs')"
proof (intro conjI impI)
  assume r: "VectorIndex_Search L vi query k = Inr rs"
  show "descending L rs"
  proof (cases "Vectors vi = []")
    case True
    with r show ?thesis by (simp add: VectorIndex_Search_def descending_def)
  next
    case False
    with r have "top_k k (sort_Slice L (by_similarity L)
                   (eligible L (\<lambda>_. True) query (IDs vi) (Vectors vi))) = Inr rs"
      by (simp add: VectorIndex_Search_def Search_loop_wf [OF wf])
    from top_k_Inr [OF this] sorted_eligible [OF c ord] show ?thesis by simp
  qed
next
  assume r: "SearchWithFilter L vi query k accept = Inr rs'"
  show "descending L rs'"
  proof (cases "Vectors vi = []")
    case True
    with r show ?thesis by (simp add: SearchWithFilter_def descending_def)
  next
    case False
    with r have "top_k k (sort_Slice L (by_similarity L)
                   (eligible L accept query (IDs vi) (Vectors vi))) = Inr rs'"
      by (simp add: SearchWithFilter_def SearchWithFilter_loop_wf [OF wf])
    from top_k_Inr [OF this] sorted_eligible [OF c ord] show ?thesis by simp
  qed
qed

text \<open>
  Witness for C2: the entries A = [1, 0], B = [0, 1], C = [3, 4], the query [1, 0] and
  k = 2 give A (similarity 1), then C (similarity 3/5).
\<close>

theorem C2_witness:
  "VectorIndex_Search exact_lib
     (Add (Add (Add NewVectorIndex ''A'' [1, 0]) ''B'' [0, 1]) ''C'' [3, 4]) [1, 0] 2
   = Inr [mk_result ''A'' 1, mk_result ''C'' (3 / 5)]
   \<and> descending exact_lib [mk_result ''A'' 1, mk_result ''C'' (3 / 5)]"
proof -
  let ?vi = "Add (Add (Add NewVectorIndex ''A'' [1, 0 :: real]) ''B'' [0, 1]) ''C'' [3, 4]"
  have wf: "wf_index ?vi" by (intro wf_Add wf_NewVectorIndex)
  have ord: "transitive_ordering_on (set (map (cosineSimilarity exact_lib [1, 0]) (Vectors ?vi)))
               (f32_gt exact_lib)"
    using real_gt_ordering by (simp add: exact_lib_def)
  from C2_results_descending [OF exact_lib_contract wf ord, of 2
         "[mk_result ''A'' 1, mk_result ''C'' (3 / 5)]"] abc_search
  show ?thesis by simp
qed

text \<open>
  Counterexamples to C2 as stated. The entries \<open>v00\<close> to \<open>v11\<close> have similarity 0
  to the query and \<open>v12\<close>, added last, has similarity 1: the partition of
  \<open>sort.Slice\<close> moves the pivot \<open>v06\<close> and then \<open>v12\<close> to the front, and the first
  three results are \<open>v12\<close>, \<open>v06\<close>, \<open>v02\<close>, where insertion order among the equal
  similarities asks for \<open>v12\<close>, \<open>v00\<close>, \<open>v01\<close>. And with a NaN in the vector of
  \<open>B\<close>, the similarity of \<open>B\<close> is NaN, no comparison with it holds, and the results
  stay as inserted: \<open>C\<close>, of similarity 1, comes after \<open>A\<close>, of similarity 0.
\<close>

theorem C2_counterexample:
  "VectorIndex_Search nan_lib thirteen_entries [Some 1, Some 0] 3
     = Inr [mk_result ''v12'' (Some 1), mk_result ''v06'' (Some 0), mk_result ''v02'' (Some 0)]
   \<and> VectorIndex_Search nan_lib nan_entry [Some 1, Some 0] 3
       = Inr [mk_result ''A'' (Some 0), mk_result ''B'' None, mk_result ''C'' (Some 1)]
   \<and> \<not> descending nan_lib
           [mk_result ''A'' (Some 0), mk_result ''B'' None, mk_result ''C'' (Some 1)]"
proof (intro conjI)
  have "Vectors thirteen_entries \<noteq> []"
    by (simp add: thirteen_entries_def Add_def NewVectorIndex_def)
  then show "VectorIndex_Search nan_lib thirteen_entries [Some 1, Some 0] 3
     = Inr [mk_result ''v12'' (Some 1), mk_result ''v06'' (Some 0), mk_result ''v02'' (Some 0)]"
    by (simp add: VectorIndex_Search_def thirteen_results nan_lib_sort by_similarity_nan_lib
          thirteen_sorted top_k_def)
  show "VectorIndex_Search nan_lib nan_entry [Some 1, Some 0] 3
       = Inr [mk_result ''A'' (Some 0), mk_result ''B'' None, mk_result ''C'' (Some 1)]"
    by (simp add: VectorIndex_Search_def nan_entry_def Add_def NewVectorIndex_def nan_cosine
          nan_lib_sort by_similarity_nan_lib nan_sorted top_k_def)
  show "\<not> descending nan_lib
           [mk_result ''A'' (Some 0), mk_result ''B'' None, mk_result ''C'' (Some 1)]"
    by (simp add: descending_def mk_result_def nan_lib_def nan_rel_def)
qed

text \<open>
  Claim C3. The round trip does not reconstruct the vector: \<open>dequantizeVector\<close>
  computes \<open>(q + 128) * scale\<close> and never adds the minimum back, although its own
  comment says it converts "back ... to original range". On \<open>[255, 510]\<close> the
  scale is 1 and the result is \<open>[0, 255]\<close>: each component is off by 255 scale
  units. Every intermediate value here is an integer below \<open>2^24\<close>, so the exact
  arithmetic of \<open>exact_lib\<close> is that of \<open>float32\<close> on this input.
\<close>

theorem C3_offset_dropped:
  "quantize_roundtrip exact_lib [255, 510] = Inr ([0, 255], 1)"
  by (simp add: quantize_roundtrip_def quantizeVector_def dequantizeVector_def minmax_step_def
        quantize_code_def exact_lib_def trunc_def Let_def)

text \<open>
  Claim C4. For every library, every state of the embedding service and every text,
  \<open>EmbedQuery\<close> and \<open>EmbedDocument\<close> return a vector (of \<open>Dimensions\<close>
  components) and no error: whatever the ONNX and the simple service answer, the last
  link of the chain is reached or an earlier one succeeded.
\<close>

theorem C4_EmbedQuery_never_fails:
  "(\<exists>v. EmbedQuery L s text = Inr v \<and> length v = Dimensions)
   \<and> (\<exists>v. EmbedDocument L s text = Inr v \<and> length v = Dimensions)"
proof
  show "\<exists>v. EmbedQuery L s text = Inr v \<and> length v = Dimensions"
    unfolding EmbedQuery_def ONNX_EmbedQuery_def
    by (auto split: option.splits sum.splits
             simp: length_generatePlaceholderEmbedding embed_length Simple_EmbedQuery_length)
  show "\<exists>v. EmbedDocument L s text = Inr v \<and> length v = Dimensions"
    unfolding EmbedDocument_def ONNX_EmbedDocument_def Simple_EmbedDocument_def
    by (auto split: option.splits sum.splits
             simp: length_generatePlaceholderEmbedding embed_length Simple_EmbedQuery_length)
qed

text \<open>
  Claim C5, as amended. \<open>Add\<close> never fails and never checks a length: it appends the
  id and the vector whatever the vector's length. So after \<open>Add\<close> every vector of
  the index has \<open>D\<close> components exactly when that held before and the added vector
  has \<open>D\<close> components.
\<close>

theorem C5_Add_stores_any_vector:
  "Vectors (Add vi eid v) = Vectors vi @ [v] \<and> IDs (Add vi eid v) = IDs vi @ [eid]
   \<and> all_dimension D (Add vi eid v) = (all_dimension D vi \<and> length v = D)"
  by (simp add: Add_def all_dimension_def)

text \<open>Witness for C5: two vectors of two components, added to the empty index.\<close>

theorem C5_Add_witness:
  "all_dimension 2 (Add (Add NewVectorIndex ''A'' [1, 0 :: real]) ''B'' [0, 1])"
  using C5_Add_stores_any_vector [of "Add NewVectorIndex ''A'' [1, 0 :: real]" "''B''" "[0, 1]" 2]
        C5_Add_stores_any_vector [of "NewVectorIndex" "''A''" "[1, 0 :: real]" 2]
  by (simp add: all_dimension_def NewVectorIndex_def)

text \<open>
  Counterexample to C5 as stated: \<open>Add\<close> of a vector of two components succeeds, and
  the index then holds a vector whose length is not \<open>Dimensions\<close> (128).
\<close>

theorem C5_counterexample:
  "Vectors (Add NewVectorIndex ''a'' [1, 0 :: real]) = [[1, 0]]
   \<and> \<not> all_dimension Dimensions (Add NewVectorIndex ''a'' [1, 0 :: real])"
  by (simp add: Add_def NewVectorIndex_def all_dimension_def Dimensions_def)

text \<open>
  Claim C6. When \<open>sort.Slice\<close> keeps its contract and the book option is not
  empty, every result that \<open>SearchService.Search\<close> returns carries the metadata of
  a text whose book equals the option under \<open>strings.EqualFold\<close>: an entry of
  another book, or one without a text, is in no result, whatever its similarity. With
  neither a book nor a chapter option the filter accepts every id.
\<close>

theorem C6_book_filter:
  assumes c: "sort_Slice_contract (sort_Slice L)"
      and r: "SearchService_Search L s query options = Value rs"
      and b: "opt_Book options \<noteq> []"
  shows "(\<forall>r\<in>set rs. EqualFold L (Book (chunk_Meta (Chunk r))) (opt_Book options))
         \<and> (opt_Book options' = [] \<and> opt_Chapter options' = []
              \<longrightarrow> filterFunc L options' lookup eid)"
proof
  show "opt_Book options' = [] \<and> opt_Chapter options' = [] \<longrightarrow> filterFunc L options' lookup eid"
    by (simp add: filterFunc_def)
  show "\<forall>r\<in>set rs. EqualFold L (Book (chunk_Meta (Chunk r))) (opt_Book options)"
  proof (cases "query = []")
    case True
    with r show ?thesis by (simp add: SearchService_Search_def)
  next
    case False
    let ?o = "default_options options"
    let ?lk = "case textLookup s (opt_Granularity ?o) of Some t \<Rightarrow> t | None \<Rightarrow> Map.empty"
    obtain qe index srs where
      sr: "SearchWithFilter L index qe (opt_K ?o) (filterFunc L ?o ?lk) = Inr srs"
      and rs: "rs = map (join_text ?lk) srs"
      using r False
      by (auto simp: SearchService_Search_def Let_def
               split: if_splits sum.splits option.splits)
    show ?thesis
    proof
      fix x assume "x \<in> set rs"
      then obtain y where y: "y \<in> set srs" and x: "x = join_text ?lk y"
        using rs by auto
      from SearchWithFilter_accept [OF c sr y] have "filterFunc L ?o ?lk (ID y)" .
      from filterFunc_book [OF this] b obtain td where
        "?lk (ID y) = Some td" "EqualFold L (Book (Meta td)) (opt_Book options)"
        by (auto simp: default_options_filters)
      then show "EqualFold L (Book (chunk_Meta (Chunk x))) (opt_Book options)"
        by (simp add: x join_text_def)
    qed
  qed
qed

text \<open>
  Witness for C6: after loading Matthew 5:3 and John 3:16, in this order and with equal
  similarities to the query, the search for the book \<open>JOHN\<close> returns John 3:16
  alone.
\<close>

theorem C6_witness:
  "sort_Slice_contract (sort_Slice exact_lib)
   \<and> SearchService_Search exact_lib after_two_books_load ''light'' book_john
       = Value [\<lparr>ID = ''id1'', Similarity = 0, Score = 0,
                 Chunk = \<lparr>chunk_ID = ''id1'', chunk_Text = Text john_3_16,
                           chunk_Meta = Meta john_3_16\<rparr>\<rparr>]
   \<and> opt_Book book_john \<noteq> []
   \<and> EqualFold exact_lib ''John'' ''JOHN''
   \<and> filterFunc exact_lib no_filter Map.empty ''id2''"
proof -
  have b: "opt_Book book_john \<noteq> []" by (simp add: book_john_def)
  from C6_book_filter [OF exact_lib_contract two_books_search b,
         where options' = no_filter and lookup = Map.empty and eid = "''id2''"]
  have e: "EqualFold exact_lib ''John'' ''JOHN'' \<and> filterFunc exact_lib no_filter Map.empty ''id2''"
    by (simp add: book_john_def john_3_16_def no_filter_def)
  with exact_lib_contract two_books_search b show ?thesis by (intro conjI) simp_all
qed

text \<open>
  Claim C7. After a call of \<open>PreloadGranularity\<close> for a granularity that returned
  success, a second call for it returns success and leaves the whole state of the
  service as it is (indices, lookup tables, cache), whatever the network would answer:
  it fetches, parses and builds nothing.
\<close>

theorem C7_preload_idempotent:
  "PreloadGranularity L fetch s g = (Value (), s')
   \<Longrightarrow> PreloadGranularity L fetch' s' g = (Value (), s')"
  using Preload_loaded [of L fetch s g s'] by (simp add: PreloadGranularity_def)

text \<open>
  Witness for C7: a first load of \<open>verse\<close> into a fresh service, then a second call
  with a network that fails every request.
\<close>

theorem C7_witness:
  "PreloadGranularity exact_lib empty_payloads fresh_service ''verse'' = (Value (), after_empty_load)
   \<and> PreloadGranularity exact_lib no_network after_empty_load ''verse'' = (Value (), after_empty_load)"
proof -
  have first: "PreloadGranularity exact_lib empty_payloads fresh_service ''verse''
                 = (Value (), after_empty_load)"
    using empty_load_fst by (simp add: after_empty_load_def prod_eq_iff)
  from C7_preload_idempotent [OF first, of no_network] first show ?thesis by simp
qed

text \<open>
  Claim C8. The placeholder embedding is a function of the text alone: it does not
  depend on the state of the service that computes it, it has no failing branch, and
  for every text, the empty one included, it yields a vector of \<open>Dimensions\<close>
  components.
\<close>

theorem C8_placeholder_total_deterministic:
  "generatePlaceholderEmbedding L s text = generatePlaceholderEmbedding L s' text
   \<and> length (generatePlaceholderEmbedding L s text) = Dimensions
   \<and> length (generatePlaceholderEmbedding L s []) = Dimensions"
  by (simp add: length_generatePlaceholderEmbedding) (simp add: generatePlaceholderEmbedding_def)

text \<open>
  Claim C9. \<open>GetMemoryUsage\<close> panics with an index out of range exactly on an index
  with no vector, and returns a number on every other index; and \<open>GetStatus\<close>
  panics as soon as one of the service's indices has no vector.
\<close>

theorem C9_GetMemoryUsage_panics_on_empty_index:
  "(GetMemoryUsage vi = Inl (IndexOutOfRange 0 0)) = (Vectors vi = [])
   \<and> (\<exists>n. GetMemoryUsage vi = Inr n) = (Vectors vi \<noteq> [])
   \<and> ((g, vi) \<in> set (indices s) \<and> Vectors vi = []
        \<longrightarrow> GetStatus s = Inl (IndexOutOfRange 0 0))"
  using GetStatus_loop_empty_index [of g vi "indices s"]
  by (auto simp: GetMemoryUsage_def GetStatus_def split: list.splits)

text \<open>
  Witness for C9: after a load whose embeddings payload holds no entry, the index of
  \<open>verse\<close> has no vector, and \<open>GetStatus\<close> panics.
\<close>

theorem C9_witness:
  "GetStatus after_empty_load = Inl (IndexOutOfRange 0 0)"
  using C9_GetMemoryUsage_panics_on_empty_index [of NewVectorIndex "''verse''" after_empty_load]
  by (simp add: empty_load_indices NewVectorIndex_def)

text \<open>
  Claim C10. The result count the HTTP handler passes on is the maximum of the request's
  k, the options' k and 10, not the first non-zero one of them: it is never below 10, and
  when neither requested k exceeds 10 it is exactly 10 (a requested 3 becomes 10).
\<close>

theorem C10_handler_K_is_max:
  "handler_K a b = max a (max b 10) \<and> 10 \<le> handler_K a b
   \<and> handler_K 3 0 = 10 \<and> handler_K 3 7 = 10 \<and> handler_K 3 20 = 20"
  by (simp add: handler_K_def maxInt_def)

end
